theory Spec2Isabelle
  imports Complex_Main "HOL-Library.Sublist"
begin

section \<open>The monitoring dashboard script (\<open>src/unnamed/part_000\<close>)\<close>

text \<open>
  The script is a set of module objects wired together by an event bus: \<open>apiService\<close>
  polls the backend and publishes \<open>statsUpdated\<close> or \<open>fetchError\<close>; \<open>chartModule\<close>,
  \<open>statusModule\<close>, \<open>alertModule\<close> and \<open>utilityModule\<close> subscribe and write to the page.
  The page, the module fields and the browser's timer table form one state record that
  every function takes and returns. A thrown exception is the first component of the
  result (\<open>Some e\<close>), next to the state as it was when the exception was thrown.
\<close>

subsection \<open>JavaScript values\<close>

text \<open>
  The decoded body of a response is any JSON value. \<open>JNum\<close> carries the exact value of
  the decoded double, which is finite (a literal beyond the range of a double is outside
  the model); \<open>JUndefined\<close> is the result of reading a property that is not there. An
  object is its list of members in source order.
\<close>

datatype jsval =
    JUndefined
  | JNull
  | JBool bool
  | JNum rat
  | JStr string
  | JArr "jsval list"
  | JObj "(string \<times> jsval) list"

datatype exn = TypeError string

text \<open>ToBoolean: what \<open>if (v)\<close>, \<open>!v\<close> and \<open>v || w\<close> test.\<close>

fun truthy :: "jsval \<Rightarrow> bool" where
  "truthy JUndefined = False"
| "truthy JNull = False"
| "truthy (JBool b) = b"
| "truthy (JNum r) = (r \<noteq> 0)"
| "truthy (JStr s) = (s \<noteq> [])"
| "truthy (JArr xs) = True"
| "truthy (JObj kvs) = True"

text \<open>\<open>a || b\<close>\<close>

definition js_or :: "jsval \<Rightarrow> jsval \<Rightarrow> jsval" where
  "js_or a b = (if truthy a then a else b)"

text \<open>
  \<open>v[k]\<close> for a value \<open>v\<close> that is neither \<open>null\<close> nor \<open>undefined\<close> (the script reads
  a property without \<open>?.\<close> only from values it has tested to be truthy). Of two members
  with the same key, \<open>JSON.parse\<close> keeps the later. None of the keys the script reads
  is a property of a string, number, boolean or array.
\<close>

fun get :: "jsval \<Rightarrow> string \<Rightarrow> jsval" where
  "get (JObj kvs) k = (case map_of (rev kvs) k of Some v \<Rightarrow> v | None \<Rightarrow> JUndefined)"
| "get v k = JUndefined"

text \<open>\<open>v?.[k]\<close> and \<open>v?.k\<close>\<close>

fun opt_get :: "jsval \<Rightarrow> string \<Rightarrow> jsval" where
  "opt_get JUndefined k = JUndefined"
| "opt_get JNull k = JUndefined"
| "opt_get v k = get v k"

text \<open>
  Conversions of a decoded value. No decoded value is a function, so a member named
  \<open>toString\<close> or \<open>toLocaleString\<close> of a decoded object hides the method of that name
  with a value that cannot be called.

  \<open>toString_throws v\<close>: converting \<open>v\<close> to a primitive (for \<open>String(v)\<close>, \<open>v < c\<close>,
  \<open>c - v\<close>, or the assignment of \<open>v\<close> to \<open>textContent\<close>) throws a TypeError. An object
  converts through its \<open>toString\<close>; an array through \<open>join\<close>, which converts every
  element that is neither \<open>null\<close> nor \<open>undefined\<close>.
\<close>

fun toString_throws :: "jsval \<Rightarrow> bool" where
  "toString_throws (JObj kvs) = (''toString'' \<in> set (map fst kvs))"
| "toString_throws (JArr xs) =
     list_ex (\<lambda>x. x \<noteq> JUndefined \<and> x \<noteq> JNull \<and> toString_throws x) xs"
| "toString_throws v = False"

text \<open>
  \<open>toLocaleString_throws v\<close>: the call \<open>v.toLocaleString()\<close> throws a TypeError, for a
  \<open>v\<close> that is neither \<open>null\<close> nor \<open>undefined\<close>. The method of \<open>Object.prototype\<close> calls
  \<open>this.toString()\<close>; that of an array calls \<open>toLocaleString\<close> of every element that is
  neither \<open>null\<close> nor \<open>undefined\<close>.
\<close>

fun toLocaleString_throws :: "jsval \<Rightarrow> bool" where
  "toLocaleString_throws (JObj kvs) =
     (''toLocaleString'' \<in> set (map fst kvs) \<or> ''toString'' \<in> set (map fst kvs))"
| "toLocaleString_throws (JArr xs) =
     list_ex (\<lambda>x. x \<noteq> JUndefined \<and> x \<noteq> JNull \<and> toLocaleString_throws x) xs"
| "toLocaleString_throws v = False"

text \<open>
  Text without markup: no \<open><\<close>, no \<open>&\<close>, no NUL and no carriage return. Assigned to
  \<open>innerHTML\<close>, such text is read back from \<open>textContent\<close> as it is.
\<close>

definition plain_char :: "char \<Rightarrow> bool" where
  "plain_char c = (c \<noteq> CHR ''<'' \<and> c \<noteq> CHR ''&'' \<and> c \<noteq> CHR 0x00 \<and> c \<noteq> CHR 0x0D)"

definition plain :: "string \<Rightarrow> bool" where
  "plain s = list_all plain_char s"

typedef plain_text = "{s :: string. plain s}"
  morphisms text_of Abs_plain_text
  by (rule exI[of _ "[]"]) (simp add: plain_def)

setup_lifting type_definition_plain_text

text \<open>
  What the script takes from the JavaScript engine, the browser and the clock:
  \<^item> \<open>env_now\<close> is \<open>new Date().toLocaleTimeString()\<close>; one reaction to an event reads the
    clock once;
  \<^item> \<open>env_toFixed1 x\<close> is \<open>x.toFixed(1)\<close> for a number \<open>x\<close>: digits, a sign, a point, or
    an exponent, so text without markup;
  \<^item> \<open>env_toNumber v\<close> is ToNumber of a string, or of the string an array or object
    converts to (\<open>None\<close> for NaN);
  \<^item> \<open>env_fl x\<close> is the double nearest to \<open>x\<close>, for the result of an arithmetic
    operation;
  \<^item> \<open>env_textContent h\<close> is the \<open>textContent\<close> of an element whose \<open>innerHTML\<close> was set
    to \<open>h\<close> (the HTML parser).
\<close>

record env =
  env_now :: string
  env_toFixed1 :: "rat \<Rightarrow> plain_text"
  env_toNumber :: "jsval \<Rightarrow> rat option"
  env_fl :: "rat \<Rightarrow> rat"
  env_textContent :: "string \<Rightarrow> string"

text \<open>ToNumber: \<open>Inr None\<close> for NaN, \<open>Inl\<close> when the conversion throws.\<close>

fun ToNumber :: "env \<Rightarrow> jsval \<Rightarrow> exn + rat option" where
  "ToNumber e JUndefined = Inr None"
| "ToNumber e JNull = Inr (Some 0)"
| "ToNumber e (JBool b) = Inr (Some (if b then 1 else 0))"
| "ToNumber e (JNum r) = Inr (Some r)"
| "ToNumber e (JStr s) = Inr (env_toNumber e (JStr s))"
| "ToNumber e v =
     (if toString_throws v then Inl (TypeError ''Cannot convert object to primitive value'')
      else Inr (env_toNumber e v))"

text \<open>\<open>v < c\<close> and \<open>v > c\<close> for a numeric literal \<open>c\<close>: false when \<open>v\<close> converts to NaN.\<close>

definition js_lt :: "env \<Rightarrow> jsval \<Rightarrow> rat \<Rightarrow> exn + bool" where
  "js_lt e v c =
     (case ToNumber e v of
        Inl ex \<Rightarrow> Inl ex
      | Inr None \<Rightarrow> Inr False
      | Inr (Some r) \<Rightarrow> Inr (r < c))"

definition js_gt :: "env \<Rightarrow> jsval \<Rightarrow> rat \<Rightarrow> exn + bool" where
  "js_gt e v c =
     (case ToNumber e v of
        Inl ex \<Rightarrow> Inl ex
      | Inr None \<Rightarrow> Inr False
      | Inr (Some r) \<Rightarrow> Inr (r > c))"

text \<open>The double nearest to \<open>x\<close>; zero is a double.\<close>

definition fl :: "env \<Rightarrow> rat \<Rightarrow> rat" where
  "fl e x = (if x = 0 then 0 else env_fl e x)"

text \<open>\<open>c - v\<close> for a numeric literal \<open>c\<close> (\<open>Inr None\<close> for NaN).\<close>

definition js_minus :: "env \<Rightarrow> rat \<Rightarrow> jsval \<Rightarrow> exn + rat option" where
  "js_minus e c v =
     (case ToNumber e v of
        Inl ex \<Rightarrow> Inl ex
      | Inr None \<Rightarrow> Inr None
      | Inr (Some r) \<Rightarrow> Inr (Some (fl e (c - r))))"

text \<open>\<open>s.includes(m)\<close>\<close>

fun str_includes :: "string \<Rightarrow> string \<Rightarrow> bool" where
  "str_includes [] m = (m = [])"
| "str_includes (c # cs) m = (prefix m (c # cs) \<or> str_includes cs m)"

text \<open>\<open>xs.join(sep)\<close>\<close>

fun join :: "string \<Rightarrow> string list \<Rightarrow> string" where
  "join sep [] = []"
| "join sep [x] = x"
| "join sep (x # y # ys) = x @ sep @ join sep (y # ys)"

subsection \<open>Configuration\<close>

record config_t =
  apiEndpoint :: string
  refreshInterval :: nat
  maxChartPoints :: nat
  maxLogEntries :: nat
  maxAlerts :: nat

definition config :: config_t where
  "config = \<lparr> apiEndpoint = [], refreshInterval = 2000, maxChartPoints = 30,
              maxLogEntries = 50, maxAlerts = 5 \<rparr>"

subsection \<open>The state: page, module fields, timers\<close>

record service_state =
  name :: string
  isHealthy :: bool

text \<open>An \<open>li\<close> of \<open>#alerts-container\<close> and a \<open>div\<close> of \<open>#logs-container\<close>.\<close>

record alert_li =
  className :: string
  textContent :: string

record log_div =
  log_className :: string
  log_textContent :: string
  log_color :: string

text \<open>A chart: \<open>chart.data.labels\<close> and \<open>chart.data.datasets[0].data\<close>.\<close>

record chart =
  labels :: "string list"
  dataset :: "jsval list"

datatype timer_callback = FetchAllStatsTick | UpdateTimeTick

record timer =
  timer_id :: nat
  timer_callback :: timer_callback
  timer_delay :: nat

text \<open>
  The text fields of \<open>statusModule.elements\<close> hold the value that the script formats
  (\<open>toFixed(1)\<close>, \<open>toLocaleString()\<close>, a template), not the formatted text:
  \<open>activeServices = (h, t)\<close> is shown as \<open>h/t\<close>, \<open>errorRate = Some x\<close> as
  \<open>x.toFixed(1)\<close> followed by a percent sign (\<open>None\<close> is NaN). The server list holds one
  entry per \<open>li\<close>. A container that \<open>getElementById\<close> does not find is \<open>None\<close>, for
  the elements the script tests before use; the other elements are those of
  \<open>dashboard-ui/index.html\<close>. \<open>requestsIssued\<close> counts the calls of \<open>fetch\<close>.
\<close>

record sys =
  overallStatus :: string
  overallStatusClass :: string
  totalRequests :: jsval
  successRate :: rat
  activeServices :: "nat \<times> nat"
  currentRps :: rat
  avgResponseTime :: rat
  errorRate :: "rat option"
  dbStatus :: string
  dbStatusClass :: string
  cacheHitRate :: rat
  activeSessions :: jsval
  serverList :: "service_state list option"
  alerts :: "alert_li list option"
  logs :: "log_div list option"
  responseTimeChart :: "chart option"
  throughputChart :: "chart option"
  monitoringEnabled :: bool
  fetchIntervalId :: "nat option"
  timers :: "timer list"
  nextTimerId :: nat
  requestsIssued :: nat

subsection \<open>Event bus\<close>

text \<open>
  The object passed to \<open>publish\<close>. The handlers destructure it, so a field that the
  publisher did not set reads as \<open>undefined\<close>: \<open>JUndefined\<close>, \<open>False\<close> (only \<open>!\<close> is
  applied to \<open>isFetchSuccess\<close>) or \<open>None\<close>. \<open>p_error\<close> is \<open>error.message\<close>.
  \<open>publish('reset')\<close> passes no object at all: \<open>None\<close>.
\<close>

record payload =
  p_stats :: jsval
  p_isFetchSuccess :: bool
  p_error :: "string option"
  p_message :: "string option"
  p_type :: "string option"

definition statsUpdated_data :: "jsval \<Rightarrow> payload" where
  "statsUpdated_data v = \<lparr> p_stats = v, p_isFetchSuccess = True, p_error = None,
     p_message = None, p_type = None \<rparr>"

definition fetchError_data :: "string \<Rightarrow> payload" where
  "fetchError_data msg = \<lparr> p_stats = JUndefined, p_isFetchSuccess = False, p_error = Some msg,
     p_message = None, p_type = None \<rparr>"

definition log_data :: "string \<Rightarrow> string option \<Rightarrow> payload" where
  "log_data msg ty = \<lparr> p_stats = JUndefined, p_isFetchSuccess = False, p_error = None,
     p_message = Some msg, p_type = ty \<rparr>"

type_synonym ('d, 's) callback = "'d \<Rightarrow> 's \<Rightarrow> exn option \<times> 's"

type_synonym ('d, 's) events = "string \<rightharpoonup> ('d, 's) callback list"

definition subscribe :: "('d, 's) events \<Rightarrow> string \<Rightarrow> ('d, 's) callback \<Rightarrow> ('d, 's) events" where
  "subscribe events eventName callback =
     (case events eventName of
        None \<Rightarrow> events(eventName \<mapsto> [callback])
      | Some cbs \<Rightarrow> events(eventName \<mapsto> cbs @ [callback]))"

text \<open>\<open>callbacks.forEach(callback => callback(data))\<close>: no \<open>try\<close> around the call.\<close>

fun forEach :: "('d, 's) callback list \<Rightarrow> 'd \<Rightarrow> 's \<Rightarrow> exn option \<times> 's" where
  "forEach [] d s = (None, s)"
| "forEach (cb # cbs) d s =
     (case cb d s of
        (Some e, s') \<Rightarrow> (Some e, s')
      | (None, s') \<Rightarrow> forEach cbs d s')"

definition publish :: "('d, 's) events \<Rightarrow> string \<Rightarrow> 'd \<Rightarrow> 's \<Rightarrow> exn option \<times> 's" where
  "publish events eventName d s =
     (case events eventName of
        None \<Rightarrow> (None, s)
      | Some cbs \<Rightarrow> forEach cbs d s)"

subsection \<open>chartModule\<close>

text \<open>The inner \<open>updateChart\<close> of \<open>chartModule.update\<close>.\<close>

definition updateChart :: "config_t \<Rightarrow> string \<Rightarrow> chart option \<Rightarrow> jsval \<Rightarrow> chart option" where
  "updateChart cfg now_label ch d =
     (case ch of
        None \<Rightarrow> None
      | Some c \<Rightarrow>
          let c1 = c\<lparr> labels := labels c @ [now_label] \<rparr>;
              c2 = c1\<lparr> dataset := dataset c1 @ [d] \<rparr>
          in if length (labels c2) > maxChartPoints cfg
             then Some (c2\<lparr> labels := tl (labels c2), dataset := tl (dataset c2) \<rparr>)
             else Some c2)"

definition chartModule_update :: "config_t \<Rightarrow> env \<Rightarrow> jsval \<Rightarrow> sys \<Rightarrow> sys" where
  "chartModule_update cfg e stats s =
     (let now_label = env_now e;
          s1 = s\<lparr> responseTimeChart := updateChart cfg now_label (responseTimeChart s)
                 (js_or (opt_get (opt_get stats ''load-balancer'') ''avg_response_time_ms'') (JNum 0)) \<rparr>
      in s1\<lparr> throughputChart := updateChart cfg now_label (throughputChart s1)
                 (js_or (opt_get (opt_get stats ''load-balancer'') ''requests_per_second'') (JNum 0)) \<rparr>)"

definition chart_reset :: "chart option \<Rightarrow> chart option" where
  "chart_reset ch = (case ch of None \<Rightarrow> None | Some c \<Rightarrow> Some (c\<lparr> labels := [], dataset := [] \<rparr>))"

definition chartModule_reset :: "sys \<Rightarrow> sys" where
  "chartModule_reset s =
     s\<lparr> responseTimeChart := chart_reset (responseTimeChart s),
        throughputChart := chart_reset (throughputChart s) \<rparr>"

subsection \<open>Sequencing\<close>

text \<open>The second statement runs only if the first did not throw.\<close>

definition and_then :: "exn option \<times> 's \<Rightarrow> ('s \<Rightarrow> exn option \<times> 's) \<Rightarrow> exn option \<times> 's" where
  "and_then r f = (case r of (Some ex, s) \<Rightarrow> (Some ex, s) | (None, s) \<Rightarrow> f s)"

subsection \<open>statusModule\<close>

text \<open>\<open>statusModule.serviceDisplayNames\<close>, in the order \<open>for (const key in ...)\<close> visits it.\<close>

definition serviceDisplayNames :: "(string \<times> string) list" where
  "serviceDisplayNames =
     [(''api-gateway'', ''API Gateway''), (''auth'', ''Auth Service''),
      (''user_service'', ''User Service''), (''blog_service'', ''Blog Service''),
      (''database'', ''Database''), (''cache'', ''Cache'')]"

text \<open>The \<open>for ... in\<close> loop of \<open>updateServerList\<close>, for a truthy \<open>stats\<close>.\<close>

fun collectServiceStates :: "jsval \<Rightarrow> (string \<times> string) list \<Rightarrow> service_state list" where
  "collectServiceStates stats [] = []"
| "collectServiceStates stats ((key, displayName) # rest) =
     (if truthy (get stats key)
      then (let serviceData = get stats key
            in \<lparr> name = displayName,
                 isHealthy = (get serviceData ''status'' = JStr ''healthy''
                              \<or> get serviceData ''service_status'' = JStr ''online'') \<rparr>)
           # collectServiceStates stats rest
      else collectServiceStates stats rest)"

definition updateServerList :: "jsval \<Rightarrow> bool \<Rightarrow> sys \<Rightarrow> service_state list \<times> sys" where
  "updateServerList stats isLbHealthy s =
     (case serverList s of
        None \<Rightarrow> ([], s)
      | Some old_items \<Rightarrow>
          let allServiceStates =
                \<lparr> name = ''Load Balancer'', isHealthy = isLbHealthy \<rparr>
                # (if truthy stats then collectServiceStates stats serviceDisplayNames else [])
          in (allServiceStates, s\<lparr> serverList := Some allServiceStates \<rparr>))"

text \<open>
  The receiver of \<open>x.toFixed(1)\<close>: a number has the method, any other value (no
  method of that name, or \<open>null\<close>) makes the call throw a TypeError. The message text of
  the exception depends on the engine and stands for itself here.
\<close>

definition toFixed_receiver :: "jsval \<Rightarrow> exn + rat" where
  "toFixed_receiver v =
     (case v of JNum r \<Rightarrow> Inr r | _ \<Rightarrow> Inl (TypeError ''toFixed is not a function''))"

text \<open>
  \<open>statusModule.update\<close>, statement by statement. The calls that can throw are
  \<open>toLocaleString()\<close> (line 179), \<open>toFixed(1)\<close> (lines 180, 194, 195 and 201), the
  comparison and the subtraction (lines 186 and 196, when the operand does not convert to
  a primitive), and the assignment of a value to \<open>textContent\<close> (line 202), which converts
  it to a string.
\<close>

definition statusModule_update :: "env \<Rightarrow> jsval \<Rightarrow> bool \<Rightarrow> sys \<Rightarrow> exn option \<times> sys" where
  "statusModule_update e stats isFetchSuccess s =
     (if \<not> isFetchSuccess \<or> \<not> truthy stats then
        (None, snd (updateServerList JNull False
                 (s\<lparr> overallStatus := ''DISCONNECTED'',
                     overallStatusClass := ''metric-value metric-danger'' \<rparr>)))
      else
        let lbData = get stats ''load-balancer'';
            (serviceStates, s1) = updateServerList stats True s;
            healthyCount = length (filter isHealthy serviceStates);
            totalCount = length serviceStates
        in
        and_then
          (let v = js_or (opt_get lbData ''total_requests'') (JNum 0)
           in if toLocaleString_throws v
              then (Some (TypeError ''toLocaleString is not a function''), s1)
              else (None, s1\<lparr> totalRequests := v \<rparr>))
        (\<lambda>s2. and_then
          (case toFixed_receiver (js_or (opt_get lbData ''success_rate'') (JNum 0)) of
             Inl ex \<Rightarrow> (Some ex, s2)
           | Inr sr \<Rightarrow> (None, s2\<lparr> successRate := sr,
                                  activeServices := (healthyCount, totalCount) \<rparr>))
        (\<lambda>s3. and_then
          (if healthyCount < totalCount then
             (None, s3\<lparr> overallStatus := ''DEGRADED'',
                         overallStatusClass := ''metric-value metric-danger'' \<rparr>)
           else
             (case js_lt e (js_or (opt_get lbData ''success_rate'') (JNum 100)) 95 of
                Inl ex \<Rightarrow> (Some ex, s3)
              | Inr low \<Rightarrow>
                  if low then
                    (None, s3\<lparr> overallStatus := ''WARNING'',
                                overallStatusClass := ''metric-value metric-warning'' \<rparr>)
                  else
                    (None, s3\<lparr> overallStatus := ''HEALTHY'',
                                overallStatusClass := ''metric-value metric-good'' \<rparr>)))
        (\<lambda>s4. and_then
          (case toFixed_receiver (js_or (opt_get lbData ''requests_per_second'') (JNum 0)) of
             Inl ex \<Rightarrow> (Some ex, s4)
           | Inr rps \<Rightarrow> (None, s4\<lparr> currentRps := rps \<rparr>))
        (\<lambda>s5. and_then
          (case toFixed_receiver (js_or (opt_get lbData ''avg_response_time_ms'') (JNum 0)) of
             Inl ex \<Rightarrow> (Some ex, s5)
           | Inr rt \<Rightarrow> (None, s5\<lparr> avgResponseTime := rt \<rparr>))
        (\<lambda>s6. and_then
          (case js_minus e 100 (js_or (opt_get lbData ''success_rate'') (JNum 100)) of
             Inl ex \<Rightarrow> (Some ex, s6)
           | Inr x \<Rightarrow> (None, s6\<lparr> errorRate := x \<rparr>))
        (\<lambda>s7. and_then
          (let dbIsHealthy = (opt_get (opt_get stats ''database'') ''status'' = JStr ''healthy'');
               s8 = s7\<lparr> dbStatus := (if dbIsHealthy then ''ONLINE'' else ''OFFLINE''),
                         dbStatusClass := ''metric-value '' @
                           (if dbIsHealthy then ''metric-good'' else ''metric-danger'') \<rparr>
           in case toFixed_receiver
                     (js_or (opt_get (opt_get stats ''cache'') ''hit_ratio'') (JNum 0)) of
                Inl ex \<Rightarrow> (Some ex, s8)
              | Inr hr \<Rightarrow> (None, s8\<lparr> cacheHitRate := hr \<rparr>))
        (\<lambda>s9. let v = js_or (opt_get (opt_get stats ''auth'') ''active_session_count'') (JNum 0)
              in if toString_throws v
                 then (Some (TypeError ''Cannot convert object to primitive value''), s9)
                 else (None, s9\<lparr> activeSessions := v \<rparr>)))))))))"

subsection \<open>alertModule\<close>

text \<open>The first argument of \<open>addAlert\<close>: the script passes \<open>'warning'\<close> or \<open>'error'\<close>.\<close>

datatype alert_type = Warning | Error

fun type_name :: "alert_type \<Rightarrow> string" where
  "type_name Warning = ''warning''"
| "type_name Error = ''error''"

text \<open>\<open>type.toUpperCase()\<close>\<close>

fun type_toUpperCase :: "alert_type \<Rightarrow> string" where
  "type_toUpperCase Warning = ''WARNING''"
| "type_toUpperCase Error = ''ERROR''"

text \<open>
  The new \<open>li\<close> gets \<open>innerHTML = <strong>TYPE:</strong> message\<close>, and the test for an
  alert that is already there reads \<open>textContent\<close> back. For a message without markup that
  is \<open>TYPE: message\<close>; for any other message it is what the HTML parser makes of it.
\<close>

definition alert_textContent :: "env \<Rightarrow> alert_type \<Rightarrow> string \<Rightarrow> string" where
  "alert_textContent e ty message =
     (if plain message then type_toUpperCase ty @ '': '' @ message
      else env_textContent e
             (''<strong>'' @ type_toUpperCase ty @ '':</strong> '' @ message))"

definition new_alert :: "env \<Rightarrow> alert_type \<Rightarrow> string \<Rightarrow> alert_li" where
  "new_alert e ty message = \<lparr> className = ''alert-box alert-'' @ type_name ty,
                              textContent = alert_textContent e ty message \<rparr>"

definition addAlert :: "config_t \<Rightarrow> env \<Rightarrow> alert_type \<Rightarrow> string \<Rightarrow> sys \<Rightarrow> sys" where
  "addAlert cfg e ty message s =
     (case alerts s of
        None \<Rightarrow> s
      | Some children \<Rightarrow>
          if list_ex (\<lambda>child. str_includes (textContent child) message) children then s
          else
            let alert = new_alert e ty message;
                children1 = alert # children
            in s\<lparr> alerts := Some (if length children1 > maxAlerts cfg
                                   then butlast children1 else children1) \<rparr>)"

text \<open>
  \<open>checkAlerts\<close>: a rule whose comparison is true formats the value with \<open>toFixed(1)\<close>,
  which throws unless the value is a number.
\<close>

definition checkAlerts :: "config_t \<Rightarrow> env \<Rightarrow> jsval \<Rightarrow> sys \<Rightarrow> exn option \<times> sys" where
  "checkAlerts cfg e stats s =
     (let lbData = opt_get stats ''load-balancer'' in
      if \<not> truthy lbData then (None, s)
      else
        and_then
          (case js_lt e (get lbData ''success_rate'') 95 of
             Inl ex \<Rightarrow> (Some ex, s)
           | Inr low \<Rightarrow>
               if low then
                 (case toFixed_receiver (get lbData ''success_rate'') of
                    Inl ex \<Rightarrow> (Some ex, s)
                  | Inr r \<Rightarrow> (None, addAlert cfg e Warning
                               (''Success rate is low: '' @ text_of (env_toFixed1 e r) @ ''%'') s))
               else (None, s))
          (\<lambda>s1. and_then
             (case js_gt e (get lbData ''avg_response_time_ms'') 500 of
                Inl ex \<Rightarrow> (Some ex, s1)
              | Inr high \<Rightarrow>
                  if high then
                    (case toFixed_receiver (get lbData ''avg_response_time_ms'') of
                       Inl ex \<Rightarrow> (Some ex, s1)
                     | Inr r \<Rightarrow> (None, addAlert cfg e Warning
                                  (''High response time: '' @ text_of (env_toFixed1 e r) @ ''ms'')
                                  s1))
                  else (None, s1))
             (\<lambda>s2. let (serviceStates, s3) = updateServerList stats True s2;
                        downServices = filter (\<lambda>sv. \<not> isHealthy sv) serviceStates
                    in if length downServices > 0 then
                         (None, addAlert cfg e Error
                            (join '', '' (map name downServices) @ '' service(s) are down.'') s3)
                       else (None, s3))))"

subsection \<open>utilityModule\<close>

definition addLog :: "config_t \<Rightarrow> env \<Rightarrow> string \<Rightarrow> string \<Rightarrow> sys \<Rightarrow> sys" where
  "addLog cfg e message ty s =
     (case logs s of
        None \<Rightarrow> s
      | Some entries \<Rightarrow>
          let logEntry = \<lparr> log_className = ''log-entry'',
                           log_textContent = ''['' @ env_now e @ ''] '' @ message,
                           log_color = (if ty = ''error'' then ''#f87171'' else ''#ecf0f1'') \<rparr>;
              entries1 = logEntry # entries
          in s\<lparr> logs := Some (if length entries1 > maxLogEntries cfg
                               then butlast entries1 else entries1) \<rparr>)"

subsection \<open>The subscriptions made by \<open>main\<close>\<close>

text \<open>
  Each callback destructures its argument; destructuring \<open>undefined\<close> (\<open>None\<close>) throws.
  A missing \<open>message\<close> prints as \<open>undefined\<close>; \<open>type\<close> has the default \<open>'info'\<close>.
\<close>

definition destructure :: "payload option \<Rightarrow> (payload \<Rightarrow> sys \<Rightarrow> exn option \<times> sys)
     \<Rightarrow> sys \<Rightarrow> exn option \<times> sys" where
  "destructure d f s =
     (case d of
        None \<Rightarrow> (Some (TypeError ''Cannot destructure undefined''), s)
      | Some p \<Rightarrow> f p s)"

definition chart_on_statsUpdated :: "config_t \<Rightarrow> env \<Rightarrow> (payload option, sys) callback" where
  "chart_on_statsUpdated cfg e d = destructure d (\<lambda>p s. (None, chartModule_update cfg e (p_stats p) s))"

definition chart_on_reset :: "(payload option, sys) callback" where
  "chart_on_reset d s = (None, chartModule_reset s)"

definition status_on_statsUpdated :: "env \<Rightarrow> (payload option, sys) callback" where
  "status_on_statsUpdated e d =
     destructure d (\<lambda>p. statusModule_update e (p_stats p) (p_isFetchSuccess p))"

definition status_on_fetchError :: "env \<Rightarrow> (payload option, sys) callback" where
  "status_on_fetchError e d =
     destructure d (\<lambda>p. statusModule_update e JNull (p_isFetchSuccess p))"

definition alert_on_statsUpdated :: "config_t \<Rightarrow> env \<Rightarrow> (payload option, sys) callback" where
  "alert_on_statsUpdated cfg e d = destructure d (\<lambda>p. checkAlerts cfg e (p_stats p))"

definition utility_on_log :: "config_t \<Rightarrow> env \<Rightarrow> (payload option, sys) callback" where
  "utility_on_log cfg e d =
     destructure d (\<lambda>p s. (None, addLog cfg e
        (case p_message p of None \<Rightarrow> ''undefined'' | Some m \<Rightarrow> m)
        (case p_type p of None \<Rightarrow> ''info'' | Some t \<Rightarrow> t) s))"

definition utility_on_fetchError :: "config_t \<Rightarrow> env \<Rightarrow> (payload option, sys) callback" where
  "utility_on_fetchError cfg e d =
     destructure d (\<lambda>p s.
        case p_error p of
          None \<Rightarrow> (Some (TypeError ''Cannot read properties of undefined''), s)
        | Some m \<Rightarrow> (None, addLog cfg e (''[ERROR] '' @ m) ''error'' s))"

text \<open>
  \<open>eventBus.events\<close> after the \<open>init\<close> calls of \<open>main\<close>, in their order:
  \<open>chartModule\<close>, \<open>statusModule\<close>, \<open>alertModule\<close>, \<open>controlsModule\<close> (no subscription),
  \<open>utilityModule\<close>.
\<close>

definition main_events :: "config_t \<Rightarrow> env \<Rightarrow> (payload option, sys) events" where
  "main_events cfg e =
     subscribe (subscribe (subscribe (subscribe (subscribe (subscribe (subscribe Map.empty
       ''statsUpdated'' (chart_on_statsUpdated cfg e))
       ''reset'' chart_on_reset)
       ''statsUpdated'' (status_on_statsUpdated e))
       ''fetchError'' (status_on_fetchError e))
       ''statsUpdated'' (alert_on_statsUpdated cfg e))
       ''log'' (utility_on_log cfg e))
       ''fetchError'' (utility_on_fetchError cfg e)"

subsection \<open>apiService\<close>

text \<open>
  \<open>fetchAllStats\<close> runs in two parts. Up to its first \<open>await\<close> it tests
  \<open>monitoringEnabled\<close> and issues the request. When the request settles, the rest runs
  with the outcome: the request failed, the status was not 2xx, the body did not parse,
  or the body decoded to a value. The \<open>publish\<close> of \<open>statsUpdated\<close> is inside the
  \<open>try\<close>, so an exception thrown by a subscriber is caught and published as \<open>fetchError\<close>.
\<close>

datatype fetch_outcome =
    NetworkFailure string
  | StatusNotOk
  | ParseFailure string
  | Decoded jsval

fun exn_message :: "exn \<Rightarrow> string" where
  "exn_message (TypeError m) = m"

definition fetchAllStats_request :: "sys \<Rightarrow> bool \<times> sys" where
  "fetchAllStats_request s =
     (if \<not> monitoringEnabled s then (False, s)
      else (True, s\<lparr> requestsIssued := Suc (requestsIssued s) \<rparr>))"

definition fetchAllStats_settle :: "config_t \<Rightarrow> env \<Rightarrow> fetch_outcome \<Rightarrow> sys \<Rightarrow> exn option \<times> sys" where
  "fetchAllStats_settle cfg e outcome s =
     (case outcome of
        NetworkFailure m \<Rightarrow>
          publish (main_events cfg e) ''fetchError'' (Some (fetchError_data m)) s
      | StatusNotOk \<Rightarrow>
          publish (main_events cfg e) ''fetchError''
            (Some (fetchError_data ''Backend communication error'')) s
      | ParseFailure m \<Rightarrow>
          publish (main_events cfg e) ''fetchError'' (Some (fetchError_data m)) s
      | Decoded combinedStats \<Rightarrow>
          (case publish (main_events cfg e) ''statsUpdated''
                  (Some (statsUpdated_data combinedStats)) s of
             (None, s1) \<Rightarrow> (None, s1)
           | (Some ex, s1) \<Rightarrow>
               publish (main_events cfg e) ''fetchError''
                 (Some (fetchError_data (exn_message ex))) s1))"

text \<open>
  The browser's timer table: \<open>setInterval\<close> returns a fresh positive handle,
  \<open>clearInterval\<close> removes the timer with that handle, if there is one.
\<close>

definition setInterval :: "timer_callback \<Rightarrow> nat \<Rightarrow> sys \<Rightarrow> nat \<times> sys" where
  "setInterval cb delay s =
     (nextTimerId s,
      s\<lparr> timers := timers s @ [\<lparr> timer_id = nextTimerId s, timer_callback = cb,
                                 timer_delay = delay \<rparr>],
         nextTimerId := Suc (nextTimerId s) \<rparr>)"

definition clearInterval :: "nat \<Rightarrow> sys \<Rightarrow> sys" where
  "clearInterval i s = s\<lparr> timers := filter (\<lambda>t. timer_id t \<noteq> i) (timers s) \<rparr>"

text \<open>\<open>if (this.fetchIntervalId) clearInterval(this.fetchIntervalId)\<close>\<close>

definition clear_fetchInterval :: "sys \<Rightarrow> sys" where
  "clear_fetchInterval s =
     (case fetchIntervalId s of
        None \<Rightarrow> s
      | Some i \<Rightarrow> if i \<noteq> 0 then clearInterval i s else s)"

definition start :: "config_t \<Rightarrow> env \<Rightarrow> sys \<Rightarrow> exn option \<times> sys" where
  "start cfg e s =
     (let s1 = s\<lparr> monitoringEnabled := True \<rparr>;
          s2 = snd (fetchAllStats_request s1);
          s3 = clear_fetchInterval s2;
          (i, s4) = setInterval FetchAllStatsTick (refreshInterval cfg) s3;
          s5 = s4\<lparr> fetchIntervalId := Some i \<rparr>
      in publish (main_events cfg e) ''log'' (Some (log_data ''Monitoring started.'' None)) s5)"

definition stop :: "config_t \<Rightarrow> env \<Rightarrow> sys \<Rightarrow> exn option \<times> sys" where
  "stop cfg e s =
     (let s1 = s\<lparr> monitoringEnabled := False \<rparr>;
          s2 = clear_fetchInterval s1
      in publish (main_events cfg e) ''log'' (Some (log_data ''Monitoring paused.'' None)) s2)"

text \<open>
  The state when \<open>main\<close> has run the \<open>init\<close> calls on the page of
  \<open>dashboard-ui/index.html\<close>: \<open>setInitialState\<close> has filled the status fields, both charts
  are empty, and the only timer is the clock of \<open>utilityModule\<close>.
\<close>

definition initialized :: sys where
  "initialized =
     \<lparr> overallStatus = ''CONNECTING...'', overallStatusClass = ''metric-value metric-warning'',
       totalRequests = JNum 0, successRate = 0, activeServices = (0, 0), currentRps = 0,
       avgResponseTime = 0, errorRate = Some 0, dbStatus = ''N/A'',
       dbStatusClass = ''metric-value metric-good'', cacheHitRate = 0, activeSessions = JNum 0,
       serverList = Some [], alerts = Some [], logs = Some [],
       responseTimeChart = Some \<lparr> labels = [], dataset = [] \<rparr>,
       throughputChart = Some \<lparr> labels = [], dataset = [] \<rparr>,
       monitoringEnabled = True, fetchIntervalId = None,
       timers = [\<lparr> timer_id = 1, timer_callback = UpdateTimeTick, timer_delay = 1000 \<rparr>],
       nextTimerId = 2, requestsIssued = 0 \<rparr>"

definition main :: "config_t \<Rightarrow> env \<Rightarrow> exn option \<times> sys" where
  "main cfg e =
     and_then
       (publish (main_events cfg e) ''log''
          (Some (log_data ''Monitoring dashboard initialized.'' None)) initialized)
       (start cfg e)"

text \<open>
  An engine for evaluation: the clock reads noon, every number is formatted as a question
  mark, no string, array or object converts to a number, rounding changes nothing, and the
  HTML parser drops everything.
\<close>

lift_definition question_mark :: plain_text is "''?''"
  by (simp add: plain_def plain_char_def)

definition env0 :: env where
  "env0 = \<lparr> env_now = ''12:00:00'', env_toFixed1 = (\<lambda>r. question_mark),
            env_toNumber = (\<lambda>v. None), env_fl = (\<lambda>x. x), env_textContent = (\<lambda>h. []) \<rparr>"

subsection \<open>Runs of several calls\<close>

text \<open>The points \<open>pts\<close> appended to one chart, in order, by calls of \<open>updateChart\<close>.\<close>

definition appendPoints :: "config_t \<Rightarrow> chart option \<Rightarrow> (string \<times> jsval) list \<Rightarrow> chart option" where
  "appendPoints cfg ch pts = foldl (\<lambda>c (l, d). updateChart cfg l c d) ch pts"

subsection \<open>The timer table\<close>

text \<open>The armed timers that call \<open>fetchAllStats\<close>.\<close>

definition fetch_timers :: "sys \<Rightarrow> timer list" where
  "fetch_timers s = filter (\<lambda>t. timer_callback t = FetchAllStatsTick) (timers s)"

text \<open>
  What holds of the timer table while only the script arms timers: handles are positive
  and below the next handle, and every armed timer that calls \<open>fetchAllStats\<close> is the one
  whose handle \<open>apiService.fetchIntervalId\<close> holds.
\<close>

definition timers_wf :: "sys \<Rightarrow> bool" where
  "timers_wf s =
     (0 < nextTimerId s
      \<and> list_all (\<lambda>t. 0 < timer_id t \<and> timer_id t < nextTimerId s) (timers s)
      \<and> list_all (\<lambda>t. fetchIntervalId s = Some (timer_id t)) (fetch_timers s))"

subsection \<open>Concrete snapshots\<close>

text \<open>The snapshot of the scenario in the specification.\<close>

definition snapshot_scenario :: jsval where
  "snapshot_scenario =
     JObj [(''load-balancer'', JObj [(''success_rate'', JNum (496 / 5)),
                                     (''avg_response_time_ms'', JNum 40),
                                     (''requests_per_second'', JNum 12),
                                     (''total_requests'', JNum 500)]),
           (''auth'', JObj [(''status'', JStr ''healthy'')]),
           (''database'', JObj [(''status'', JStr ''healthy'')]),
           (''cache'', JObj [(''hit_ratio'', JNum 80)])]"


definition snapshot_zero_rate :: jsval where
  "snapshot_zero_rate = JObj [(''load-balancer'', JObj [(''success_rate'', JNum 0)])]"

text \<open>A snapshot whose \<open>requests_per_second\<close> is a string.\<close>

definition snapshot_bad_rps :: jsval where
  "snapshot_bad_rps =
     JObj [(''load-balancer'', JObj [(''success_rate'', JNum 99),
                                     (''avg_response_time_ms'', JNum 900),
                                     (''requests_per_second'', JStr ''12'')])]"

text \<open>Snapshots with services that are down, and one without a load-balancer entry.\<close>

definition snapshot_two_down :: jsval where
  "snapshot_two_down =
     JObj [(''load-balancer'', JObj [(''success_rate'', JNum 99)]),
           (''auth'', JObj [(''status'', JStr ''down'')]),
           (''database'', JObj [(''status'', JStr ''down'')])]"

definition snapshot_db_down :: jsval where
  "snapshot_db_down =
     JObj [(''load-balancer'', JObj [(''success_rate'', JNum 99)]),
           (''auth'', JObj [(''status'', JStr ''healthy'')]),
           (''database'', JObj [(''status'', JStr ''down'')])]"

definition snapshot_no_lb :: jsval where
  "snapshot_no_lb = JObj [(''auth'', JObj [(''status'', JStr ''down'')])]"

subsection \<open>The rules of \<open>checkAlerts\<close>, one by one\<close>

text \<open>The message of the third rule of \<open>checkAlerts\<close>.\<close>

definition down_message :: "service_state list \<Rightarrow> string" where
  "down_message serviceStates =
     join '', '' (map name (filter (\<lambda>sv. \<not> isHealthy sv) serviceStates))
     @ '' service(s) are down.''"

text \<open>The state after the first two rules of \<open>checkAlerts\<close>, when neither throws.\<close>

definition after_warnings :: "config_t \<Rightarrow> env \<Rightarrow> jsval \<Rightarrow> sys \<Rightarrow> sys" where
  "after_warnings cfg e lbData s =
     (let s1 = (case get lbData ''success_rate'' of
                  JNum r \<Rightarrow>
                    if r < 95
                    then addAlert cfg e Warning
                           (''Success rate is low: '' @ text_of (env_toFixed1 e r) @ ''%'') s
                    else s
                | _ \<Rightarrow> s)
      in case get lbData ''avg_response_time_ms'' of
           JNum r \<Rightarrow>
             if r > 500
             then addAlert cfg e Warning
                    (''High response time: '' @ text_of (env_toFixed1 e r) @ ''ms'') s1
             else s1
         | _ \<Rightarrow> s1)"

text \<open>
  A snapshot whose numeric fields are numbers where they are present: the six fields
  that the script formats or compares.
\<close>

definition numeric_or_absent :: "jsval \<Rightarrow> bool" where
  "numeric_or_absent v = (case v of JUndefined \<Rightarrow> True | JNum r \<Rightarrow> True | _ \<Rightarrow> False)"

definition numeric_fields :: "jsval \<Rightarrow> bool" where
  "numeric_fields stats =
     (let lbData = get stats ''load-balancer'' in
        numeric_or_absent (opt_get lbData ''total_requests'')
      \<and> numeric_or_absent (opt_get lbData ''success_rate'')
      \<and> numeric_or_absent (opt_get lbData ''requests_per_second'')
      \<and> numeric_or_absent (opt_get lbData ''avg_response_time_ms'')
      \<and> numeric_or_absent (opt_get (opt_get stats ''cache'') ''hit_ratio'')
      \<and> numeric_or_absent (opt_get (opt_get stats ''auth'') ''active_session_count''))"

section \<open>Properties\<close>

subsection \<open>Chart series\<close>

lemma shift_is_drop:
  assumes "length xs \<le> C"
  shows "(if length (xs @ [x]) > C then tl (xs @ [x]) else xs @ [x])
         = drop (Suc (length xs) - C) (xs @ [x])"
proof (cases "length xs < C")
  case True
  then show ?thesis by simp
next
  case False
  with assms have "Suc (length xs) - C = Suc 0" by simp
  moreover have "drop (Suc 0) (xs @ [x]) = tl (xs @ [x])" by (simp only: drop_Suc drop_0)
  ultimately show ?thesis using False assms by (simp del: drop_append)
qed

lemma window_drop:
  assumes "length xs \<le> C"
  shows "drop (length (drop (Suc (length xs) - C) (xs @ [x])) + m - C)
              (drop (Suc (length xs) - C) (xs @ [x]) @ rest)
         = drop (length xs + Suc m - C) (xs @ x # rest)"
proof (cases "length xs < C")
  case True
  then show ?thesis by simp
next
  case False
  with assms have eq: "length xs = C" by simp
  then have k: "Suc (length xs) - C = Suc 0" by simp
  have d: "drop (Suc 0) (xs @ [x]) = tl (xs @ [x])" by (simp only: drop_Suc drop_0)
  have t: "tl (xs @ [x]) @ rest = tl (xs @ x # rest)" by (cases xs) simp_all
  have l: "length (tl (xs @ [x])) = C" using eq by simp
  have "drop (length (tl (xs @ [x])) + m - C) (tl (xs @ [x]) @ rest) = drop m (tl (xs @ x # rest))"
    unfolding l t by simp
  also have "\<dots> = drop (Suc m) (xs @ x # rest)" by (simp only: drop_Suc)
  also have "\<dots> = drop (length xs + Suc m - C) (xs @ x # rest)" using eq by simp
  finally show ?thesis unfolding k d .
qed

lemma updateChart_step:
  assumes "length (labels c) \<le> maxChartPoints cfg" "length (dataset c) = length (labels c)"
  shows "updateChart cfg l (Some c) d =
     Some (c\<lparr> labels := drop (Suc (length (labels c)) - maxChartPoints cfg) (labels c @ [l]),
              dataset := drop (Suc (length (labels c)) - maxChartPoints cfg) (dataset c @ [d]) \<rparr>)"
proof -
  have L: "(if length (labels c @ [l]) > maxChartPoints cfg
            then tl (labels c @ [l]) else labels c @ [l])
      = drop (Suc (length (labels c)) - maxChartPoints cfg) (labels c @ [l])"
    using assms(1) by (rule shift_is_drop)
  have D: "(if length (dataset c @ [d]) > maxChartPoints cfg
            then tl (dataset c @ [d]) else dataset c @ [d])
      = drop (Suc (length (labels c)) - maxChartPoints cfg) (dataset c @ [d])"
    using shift_is_drop[of "dataset c" "maxChartPoints cfg" d] assms by simp
  show ?thesis
    unfolding L[symmetric] D[symmetric] using assms(2)
    by (simp add: updateChart_def Let_def)
qed

lemma appendPoints_window:
  assumes "length (labels c) \<le> maxChartPoints cfg" "length (dataset c) = length (labels c)"
  shows "appendPoints cfg (Some c) pts =
     Some (c\<lparr> labels := drop (length (labels c) + length pts - maxChartPoints cfg)
                           (labels c @ map fst pts),
              dataset := drop (length (labels c) + length pts - maxChartPoints cfg)
                           (dataset c @ map snd pts) \<rparr>)"
  using assms
proof (induction pts arbitrary: c)
  case Nil
  then show ?case by (simp add: appendPoints_def)
next
  case (Cons p pts)
  obtain l d where p: "p = (l, d)" by (cases p)
  let ?C = "maxChartPoints cfg"
  let ?k = "Suc (length (labels c)) - ?C"
  let ?c' = "c\<lparr> labels := drop ?k (labels c @ [l]), dataset := drop ?k (dataset c @ [d]) \<rparr>"
  have step: "updateChart cfg l (Some c) d = Some ?c'"
    using Cons.prems by (rule updateChart_step)
  have len: "length (labels ?c') \<le> ?C" "length (dataset ?c') = length (labels ?c')"
    using Cons.prems by auto
  have unfold: "appendPoints cfg (Some c) (p # pts) = appendPoints cfg (Some ?c') pts"
    using step by (simp add: appendPoints_def p)
  have A: "drop (length (labels ?c') + length pts - ?C) (labels ?c' @ map fst pts)
      = drop (length (labels c) + length (p # pts) - ?C) (labels c @ map fst (p # pts))"
    using window_drop[OF Cons.prems(1), of l "length pts" "map fst pts"]
    by (simp add: p del: drop_append)
  have B: "drop (length (labels ?c') + length pts - ?C) (dataset ?c' @ map snd pts)
      = drop (length (labels c) + length (p # pts) - ?C) (dataset c @ map snd (p # pts))"
    using window_drop[of "dataset c" ?C d "length pts" "map snd pts"] Cons.prems
    by (simp add: p del: drop_append)
  show ?case
    unfolding unfold Cons.IH[OF len] using A B by (simp del: drop_append)
qed

text \<open>
  Claim C6. A chart series of capacity \<open>C = maxChartPoints\<close> is a sliding window. One
  insertion appends the point at the end and, if the series is then longer than \<open>C\<close>,
  removes the first point. A series that starts with at most \<open>C\<close> points never has more
  than \<open>C\<close>; after the points \<open>pts\<close> it holds the last \<open>C\<close> of the old points followed by
  \<open>pts\<close>, and once more than \<open>C\<close> points were appended it holds exactly the \<open>C\<close> most
  recent of them, in order. Labels and values move together. \<open>chartModule.update\<close> makes
  one such insertion into each of the two charts, and \<open>config\<close> sets \<open>C\<close> to 30.
\<close>

theorem updateChart_sliding_window:
  assumes "length (labels c) \<le> maxChartPoints cfg"
    and "length (dataset c) = length (labels c)"
  shows "updateChart cfg l (Some c) d =
           Some (c\<lparr> labels := (if length (labels c @ [l]) > maxChartPoints cfg
                                then tl (labels c @ [l]) else labels c @ [l]),
                    dataset := (if length (dataset c @ [d]) > maxChartPoints cfg
                                then tl (dataset c @ [d]) else dataset c @ [d]) \<rparr>)
         \<and> (\<exists>c'. appendPoints cfg (Some c) pts = Some c'
           \<and> labels c' = drop (length (labels c) + length pts - maxChartPoints cfg)
                               (labels c @ map fst pts)
           \<and> dataset c' = drop (length (labels c) + length pts - maxChartPoints cfg)
                               (dataset c @ map snd pts)
           \<and> length (labels c') \<le> maxChartPoints cfg
           \<and> length (dataset c') = length (labels c')
           \<and> (length pts > maxChartPoints cfg \<longrightarrow>
                length (labels c') = maxChartPoints cfg
                \<and> labels c' = drop (length pts - maxChartPoints cfg) (map fst pts)
                \<and> dataset c' = drop (length pts - maxChartPoints cfg) (map snd pts)))
         \<and> responseTimeChart (chartModule_update cfg e stats s) =
             updateChart cfg (env_now e) (responseTimeChart s)
               (js_or (opt_get (opt_get stats ''load-balancer'') ''avg_response_time_ms'') (JNum 0))
         \<and> throughputChart (chartModule_update cfg e stats s) =
             updateChart cfg (env_now e) (throughputChart s)
               (js_or (opt_get (opt_get stats ''load-balancer'') ''requests_per_second'') (JNum 0))
         \<and> maxChartPoints config = 30"
proof (intro conjI)
  show "responseTimeChart (chartModule_update cfg e stats s) =
             updateChart cfg (env_now e) (responseTimeChart s)
               (js_or (opt_get (opt_get stats ''load-balancer'') ''avg_response_time_ms'') (JNum 0))"
    by (simp add: chartModule_update_def Let_def)
  show "throughputChart (chartModule_update cfg e stats s) =
             updateChart cfg (env_now e) (throughputChart s)
               (js_or (opt_get (opt_get stats ''load-balancer'') ''requests_per_second'') (JNum 0))"
    by (simp add: chartModule_update_def Let_def)
  show "maxChartPoints config = 30" by (simp add: config_def)
next
  show "updateChart cfg l (Some c) d =
           Some (c\<lparr> labels := (if length (labels c @ [l]) > maxChartPoints cfg
                                then tl (labels c @ [l]) else labels c @ [l]),
                    dataset := (if length (dataset c @ [d]) > maxChartPoints cfg
                                then tl (dataset c @ [d]) else dataset c @ [d]) \<rparr>)"
    using assms(2) by (simp add: updateChart_def Let_def)
next
  let ?C = "maxChartPoints cfg"
  let ?n = "length (labels c)"
  let ?c' = "c\<lparr> labels := drop (?n + length pts - ?C) (labels c @ map fst pts),
               dataset := drop (?n + length pts - ?C) (dataset c @ map snd pts) \<rparr>"
  have run: "appendPoints cfg (Some c) pts = Some ?c'"
    using assms by (rule appendPoints_window)
  have bound: "length (labels ?c') \<le> ?C" using assms(1) by simp
  have same: "length (dataset ?c') = length (labels ?c')" using assms(2) by simp
  have recent: "length (labels ?c') = ?C
      \<and> labels ?c' = drop (length pts - ?C) (map fst pts)
      \<and> dataset ?c' = drop (length pts - ?C) (map snd pts)" if "length pts > ?C"
  proof -
    have "?n + length pts - ?C - ?n = length pts - ?C" using that by simp
    moreover have "?n \<le> ?n + length pts - ?C" using that by simp
    ultimately show ?thesis using assms that by simp
  qed
  show "\<exists>c'. appendPoints cfg (Some c) pts = Some c'
           \<and> labels c' = drop (?n + length pts - ?C) (labels c @ map fst pts)
           \<and> dataset c' = drop (?n + length pts - ?C) (dataset c @ map snd pts)
           \<and> length (labels c') \<le> ?C
           \<and> length (dataset c') = length (labels c')
           \<and> (length pts > ?C \<longrightarrow>
                length (labels c') = ?C
                \<and> labels c' = drop (length pts - ?C) (map fst pts)
                \<and> dataset c' = drop (length pts - ?C) (map snd pts))"
    using run bound same recent by (intro exI[of _ ?c']) simp
qed

theorem updateChart_sliding_window_witness:
  "length (labels \<lparr> labels = [], dataset = [] \<rparr>) \<le> maxChartPoints (config\<lparr> maxChartPoints := 2 \<rparr>)
   \<and> (\<exists>c'. appendPoints (config\<lparr> maxChartPoints := 2 \<rparr>) (Some \<lparr> labels = [], dataset = [] \<rparr>)
             [(''t1'', JNum 1), (''t2'', JNum 2), (''t3'', JNum 3)] = Some c'
           \<and> labels c' = [''t2'', ''t3''] \<and> dataset c' = [JNum 2, JNum 3])"
  using updateChart_sliding_window[where c = "\<lparr> labels = [], dataset = [] \<rparr>"
      and cfg = "config\<lparr> maxChartPoints := 2 \<rparr>"
      and pts = "[(''t1'', JNum 1), (''t2'', JNum 2), (''t3'', JNum 3)]"
      and l = "''t1''" and d = "JNum 1" and e = env0 and stats = JNull and s = initialized]
  by (auto simp: config_def)

subsection \<open>The subscriptions\<close>

lemma main_events_fetchError:
  "main_events cfg e ''fetchError'' = Some [status_on_fetchError e, utility_on_fetchError cfg e]"
  by (simp add: main_events_def subscribe_def)

lemma main_events_statsUpdated:
  "main_events cfg e ''statsUpdated'' =
     Some [chart_on_statsUpdated cfg e, status_on_statsUpdated e, alert_on_statsUpdated cfg e]"
  by (simp add: main_events_def subscribe_def)

lemma main_events_log:
  "main_events cfg e ''log'' = Some [utility_on_log cfg e]"
  by (simp add: main_events_def subscribe_def)

lemma addLog_frame:
  "overallStatus (addLog cfg e m ty s) = overallStatus s"
  "serverList (addLog cfg e m ty s) = serverList s"
  "alerts (addLog cfg e m ty s) = alerts s"
  "timers (addLog cfg e m ty s) = timers s"
  "nextTimerId (addLog cfg e m ty s) = nextTimerId s"
  "fetchIntervalId (addLog cfg e m ty s) = fetchIntervalId s"
  "monitoringEnabled (addLog cfg e m ty s) = monitoringEnabled s"
  by (simp_all add: addLog_def Let_def split: option.splits)

lemma updateServerList_frame:
  "overallStatus (snd (updateServerList st b s)) = overallStatus s"
  "alerts (snd (updateServerList st b s)) = alerts s"
  by (simp_all add: updateServerList_def Let_def split: option.splits)

lemma updateServerList_present:
  assumes "serverList s \<noteq> None"
  shows "updateServerList stats b s =
     (fst (updateServerList stats b s),
      s\<lparr> serverList := Some (fst (updateServerList stats b s)) \<rparr>)"
  using assms by (auto simp: updateServerList_def Let_def split: option.splits)

lemma updateServerList_null:
  assumes "serverList s \<noteq> None"
  shows "updateServerList JNull False s =
     ([\<lparr> name = ''Load Balancer'', isHealthy = False \<rparr>],
      s\<lparr> serverList := Some [\<lparr> name = ''Load Balancer'', isHealthy = False \<rparr>] \<rparr>)"
  using assms by (auto simp: updateServerList_def Let_def split: option.splits)

subsection \<open>Fetch failure\<close>

lemma update_disconnected:
  assumes "\<not> ok \<or> \<not> truthy stats"
  shows "statusModule_update e stats ok s =
     (None, snd (updateServerList JNull False
        (s\<lparr> overallStatus := ''DISCONNECTED'',
            overallStatusClass := ''metric-value metric-danger'' \<rparr>)))"
  using assms by (auto simp: statusModule_update_def)

lemma publish_fetchError:
  "publish (main_events cfg e) ''fetchError'' (Some (fetchError_data msg)) s =
     (None, addLog cfg e (''[ERROR] '' @ msg) ''error''
        (snd (updateServerList JNull False
          (s\<lparr> overallStatus := ''DISCONNECTED'',
              overallStatusClass := ''metric-value metric-danger'' \<rparr>))))"
  by (simp add: publish_def main_events_fetchError status_on_fetchError_def
      utility_on_fetchError_def destructure_def fetchError_data_def update_disconnected)

lemma settle_failure:
  assumes "\<forall>v. outcome \<noteq> Decoded v"
  shows "\<exists>msg. fetchAllStats_settle cfg e outcome s =
     publish (main_events cfg e) ''fetchError'' (Some (fetchError_data msg)) s"
  using assms by (cases outcome) (auto simp: fetchAllStats_settle_def)

text \<open>
  Claim C2. When a fetch fails (the request fails, the status is not 2xx, or the body
  does not parse), \<open>fetchError\<close> is published, and whatever the error says, the page then
  shows the overall status \<open>DISCONNECTED\<close> and a server list of exactly one entry, named
  \<open>Load Balancer\<close> and not healthy. The same holds for any publication of \<open>fetchError\<close>
  with an error message, and the list that \<open>updateServerList(null, false)\<close> returns is
  that one entry. The page is one that has the \<open>server-list\<close> element.
\<close>

theorem fetchError_disconnected:
  assumes "serverList s \<noteq> None"
    and "\<forall>v. outcome \<noteq> Decoded v"
  shows "fst (fetchAllStats_settle cfg e outcome s) = None
       \<and> overallStatus (snd (fetchAllStats_settle cfg e outcome s)) = ''DISCONNECTED''
       \<and> serverList (snd (fetchAllStats_settle cfg e outcome s))
           = Some [\<lparr> name = ''Load Balancer'', isHealthy = False \<rparr>]
       \<and> overallStatus (snd (publish (main_events cfg e) ''fetchError''
                                (Some (fetchError_data msg)) s)) = ''DISCONNECTED''
       \<and> serverList (snd (publish (main_events cfg e) ''fetchError''
                                (Some (fetchError_data msg)) s))
           = Some [\<lparr> name = ''Load Balancer'', isHealthy = False \<rparr>]
       \<and> fst (updateServerList JNull False s) = [\<lparr> name = ''Load Balancer'', isHealthy = False \<rparr>]"
proof -
  have pub: "fst (publish (main_events cfg e) ''fetchError'' (Some (fetchError_data m)) s) = None
       \<and> overallStatus (snd (publish (main_events cfg e) ''fetchError''
                                (Some (fetchError_data m)) s)) = ''DISCONNECTED''
       \<and> serverList (snd (publish (main_events cfg e) ''fetchError''
                                (Some (fetchError_data m)) s))
           = Some [\<lparr> name = ''Load Balancer'', isHealthy = False \<rparr>]" for m
    using assms(1) by (simp add: publish_fetchError addLog_frame updateServerList_null)
  obtain m where "fetchAllStats_settle cfg e outcome s =
     publish (main_events cfg e) ''fetchError'' (Some (fetchError_data m)) s"
    using settle_failure[OF assms(2)] by blast
  then show ?thesis
    using pub[of m] pub[of msg] assms(1) by (simp add: updateServerList_null)
qed

theorem fetchError_disconnected_witness:
  "overallStatus (snd (fetchAllStats_settle config env0 StatusNotOk initialized)) = ''DISCONNECTED''
   \<and> serverList (snd (fetchAllStats_settle config env0 StatusNotOk initialized))
       = Some [\<lparr> name = ''Load Balancer'', isHealthy = False \<rparr>]"
  using fetchError_disconnected[of initialized StatusNotOk config env0]
  by (simp add: initialized_def)

text \<open>
  Claim C10. A fetch failure leaves the alert list exactly as it was. The callbacks
  subscribed to \<open>fetchError\<close> are those of \<open>statusModule\<close> and \<open>utilityModule\<close>;
  \<open>alertModule\<close> subscribes to \<open>statsUpdated\<close> only. So no publication of \<open>fetchError\<close>,
  whatever it carries, inserts or removes an alert.
\<close>

theorem fetchError_keeps_alerts:
  "main_events cfg e ''fetchError'' = Some [status_on_fetchError e, utility_on_fetchError cfg e]
   \<and> alerts (snd (publish (main_events cfg e) ''fetchError'' d s)) = alerts s
   \<and> ((\<forall>v. outcome \<noteq> Decoded v) \<longrightarrow>
        alerts (snd (fetchAllStats_settle cfg e outcome s)) = alerts s)"
proof -
  have pub: "alerts (snd (publish (main_events cfg e) ''fetchError'' d s)) = alerts s" for d
  proof (cases d)
    case None
    then show ?thesis
      by (simp add: publish_def main_events_fetchError status_on_fetchError_def destructure_def)
  next
    case (Some p)
    have u: "statusModule_update e JNull ok s =
       (None, snd (updateServerList JNull False
          (s\<lparr> overallStatus := ''DISCONNECTED'',
              overallStatusClass := ''metric-value metric-danger'' \<rparr>)))" for ok
      by (rule update_disconnected) simp
    show ?thesis
      by (simp add: Some publish_def main_events_fetchError status_on_fetchError_def
          utility_on_fetchError_def destructure_def u addLog_frame updateServerList_frame
          split: option.splits)
  qed
  have "alerts (snd (fetchAllStats_settle cfg e outcome s)) = alerts s"
    if "\<forall>v. outcome \<noteq> Decoded v"
    using settle_failure[OF that, of cfg e s] pub by auto
  then show ?thesis using pub main_events_fetchError by blast
qed

theorem fetchError_keeps_alerts_witness:
  "alerts (snd (fetchAllStats_settle config env0 (NetworkFailure ''Failed to fetch'')
      (initialized\<lparr> alerts := Some [\<lparr> className = ''alert-box alert-error'',
                                      textContent = ''ERROR: Database service(s) are down.'' \<rparr>] \<rparr>)))
   = Some [\<lparr> className = ''alert-box alert-error'',
            textContent = ''ERROR: Database service(s) are down.'' \<rparr>]"
  using fetchError_keeps_alerts[of config env0 None
      "initialized\<lparr> alerts := Some [\<lparr> className = ''alert-box alert-error'',
                                      textContent = ''ERROR: Database service(s) are down.'' \<rparr>] \<rparr>"
      "NetworkFailure ''Failed to fetch''"]
  by simp

subsection \<open>Status display\<close>

lemma updateServerList_eq:
  assumes "serverList s \<noteq> None"
  shows "updateServerList stats b s =
     (\<lparr> name = ''Load Balancer'', isHealthy = b \<rparr>
        # (if truthy stats then collectServiceStates stats serviceDisplayNames else []),
      s\<lparr> serverList := Some (\<lparr> name = ''Load Balancer'', isHealthy = b \<rparr>
        # (if truthy stats then collectServiceStates stats serviceDisplayNames else [])) \<rparr>)"
  using assms by (auto simp: updateServerList_def Let_def split: option.splits)

lemma toFixed_receiver_JNum:
  "toFixed_receiver (JNum r) = Inr r"
  by (simp add: toFixed_receiver_def)

lemma fl_zero: "fl e 0 = 0"
  by (simp add: fl_def)

lemma numeric_steps:
  assumes "numeric_or_absent v"
  shows "toFixed_receiver (js_or v (JNum 0)) = Inr (case v of JNum r \<Rightarrow> r | _ \<Rightarrow> 0)"
    and "\<not> toLocaleString_throws (js_or v (JNum 0))"
    and "\<not> toString_throws (js_or v (JNum 0))"
    and "js_lt e (js_or v (JNum 100)) 95
         = Inr (case v of JNum r \<Rightarrow> r \<noteq> 0 \<and> r < 95 | _ \<Rightarrow> False)"
    and "js_minus e 100 (js_or v (JNum 100))
         = Inr (Some (case v of JNum r \<Rightarrow> if r = 0 then 0 else fl e (100 - r) | _ \<Rightarrow> 0))"
    and "js_lt e v c = Inr (case v of JNum r \<Rightarrow> r < c | _ \<Rightarrow> False)"
    and "js_gt e v c = Inr (case v of JNum r \<Rightarrow> r > c | _ \<Rightarrow> False)"
  using assms
  by (cases v; simp add: numeric_or_absent_def toFixed_receiver_def js_or_def js_lt_def js_gt_def
        js_minus_def fl_zero)+

lemma numeric_fieldsD:
  assumes "numeric_fields stats"
  shows "numeric_or_absent (opt_get (get stats ''load-balancer'') ''total_requests'')"
    "numeric_or_absent (opt_get (get stats ''load-balancer'') ''success_rate'')"
    "numeric_or_absent (opt_get (get stats ''load-balancer'') ''requests_per_second'')"
    "numeric_or_absent (opt_get (get stats ''load-balancer'') ''avg_response_time_ms'')"
    "numeric_or_absent (opt_get (opt_get stats ''cache'') ''hit_ratio'')"
    "numeric_or_absent (opt_get (opt_get stats ''auth'') ''active_session_count'')"
  using assms by (simp_all add: numeric_fields_def Let_def)

lemma update_typed:
  assumes "serverList s \<noteq> None" "truthy stats" "numeric_fields stats"
  shows "fst (statusModule_update e stats True s) = None"
    and "overallStatus (snd (statusModule_update e stats True s)) =
     (if length (filter isHealthy (fst (updateServerList stats True s)))
           < length (fst (updateServerList stats True s)) then ''DEGRADED''
      else if (case opt_get (get stats ''load-balancer'') ''success_rate'' of
                 JNum r \<Rightarrow> r \<noteq> 0 \<and> r < 95 | _ \<Rightarrow> False)
      then ''WARNING'' else ''HEALTHY'')"
    and "activeServices (snd (statusModule_update e stats True s)) =
       (length (filter isHealthy (fst (updateServerList stats True s))),
        length (fst (updateServerList stats True s)))"
    and "errorRate (snd (statusModule_update e stats True s)) =
       Some (case opt_get (get stats ''load-balancer'') ''success_rate'' of
               JNum r \<Rightarrow> if r = 0 then 0 else fl e (100 - r) | _ \<Rightarrow> 0)"
    and "successRate (snd (statusModule_update e stats True s)) =
       (case opt_get (get stats ''load-balancer'') ''success_rate'' of JNum r \<Rightarrow> r | _ \<Rightarrow> 0)"
    and "serverList (snd (statusModule_update e stats True s))
         = Some (fst (updateServerList stats True s))"
  using assms(2)
  by (simp_all add: statusModule_update_def Let_def and_then_def
       updateServerList_eq[OF assms(1)] numeric_steps[OF numeric_fieldsD(1)[OF assms(3)]]
       numeric_steps[OF numeric_fieldsD(2)[OF assms(3)]]
       numeric_steps[OF numeric_fieldsD(3)[OF assms(3)]]
       numeric_steps[OF numeric_fieldsD(4)[OF assms(3)]]
       numeric_steps[OF numeric_fieldsD(5)[OF assms(3)]]
       numeric_steps[OF numeric_fieldsD(6)[OF assms(3)]])


lemma chartModule_update_frame:
  "serverList (chartModule_update cfg e st s) = serverList s"
  "alerts (chartModule_update cfg e st s) = alerts s"
  "overallStatus (chartModule_update cfg e st s) = overallStatus s"
  by (simp_all add: chartModule_update_def Let_def)

lemma addAlert_frame:
  "overallStatus (addAlert cfg e ty m s) = overallStatus s"
  "serverList (addAlert cfg e ty m s) = serverList s"
  "activeServices (addAlert cfg e ty m s) = activeServices s"
  by (simp_all add: addAlert_def Let_def split: option.splits)

lemma and_then_preserves:
  assumes "P (snd r)" and "\<And>s1. P s1 \<Longrightarrow> P (snd (f s1))"
  shows "P (snd (and_then r f))"
  using assms by (cases r) (auto simp: and_then_def split: option.splits)

lemma update_alerts:
  "alerts (snd (statusModule_update e stats ok s)) = alerts s"
proof (cases "\<not> ok \<or> \<not> truthy stats")
  case True
  then show ?thesis by (simp add: update_disconnected updateServerList_frame)
next
  case False
  let ?P = "\<lambda>s1. alerts s1 = alerts s"
  have 0: "?P (snd (updateServerList stats True s))" by (simp add: updateServerList_frame)
  show ?thesis
    unfolding statusModule_update_def
    apply (simp only: False if_False Let_def case_prod_beta)
    apply (intro and_then_preserves[where P = ?P])
    using 0 apply (simp_all split: sum.splits)
    done
qed

text \<open>What \<open>addAlert\<close> and \<open>updateServerList\<close> keep, \<open>checkAlerts\<close> keeps.\<close>

lemma checkAlerts_preserves:
  assumes add: "\<And>ty m s1. P s1 \<Longrightarrow> P (addAlert cfg e ty m s1)"
    and upd: "\<And>s1. P s1 \<Longrightarrow> P (snd (updateServerList st True s1))"
    and init: "P s"
  shows "P (snd (checkAlerts cfg e st s))"
proof -
  have A: "P (snd (case c of
                     Inl ex \<Rightarrow> (Some ex, s0)
                   | Inr b \<Rightarrow>
                       if b then (case x of Inl ex \<Rightarrow> (Some ex, s0)
                                 | Inr r \<Rightarrow> (None, addAlert cfg e ty (m r) s0))
                       else (None, s0)))"
    if "P s0" for c x s0 ty and m :: "rat \<Rightarrow> string"
    using that add by (simp split: sum.splits)
  have C: "P (snd (let (serviceStates, s3) = updateServerList st True s2;
                        downServices = filter (\<lambda>sv. \<not> isHealthy sv) serviceStates
                    in if length downServices > 0 then
                         (None, addAlert cfg e Error
                            (join '', '' (map name downServices) @ '' service(s) are down.'') s3)
                       else (None, s3)))" if "P s2" for s2
    using upd[OF that] add by (simp add: Let_def case_prod_beta)
  show ?thesis
  proof (cases "truthy (opt_get st ''load-balancer'')")
    case False
    then show ?thesis using init by (simp add: checkAlerts_def)
  next
    case True
    show ?thesis
      unfolding checkAlerts_def
      apply (simp only: Let_def[of "opt_get st ''load-balancer''"] True not_True_eq_False if_False)
      apply (rule and_then_preserves[where P = P])
       apply (rule A, rule init)
      apply (rule and_then_preserves[where P = P])
       apply (rule A, assumption)
      apply (rule C, assumption)
      done
  qed
qed

lemma checkAlerts_overallStatus:
  "overallStatus (snd (checkAlerts cfg e st s)) = overallStatus s"
  by (rule checkAlerts_preserves[where P = "\<lambda>s1. overallStatus s1 = overallStatus s"])
     (simp_all add: addAlert_frame updateServerList_frame)

lemma checkAlerts_activeServices:
  "activeServices (snd (checkAlerts cfg e st s)) = activeServices s"
  by (rule checkAlerts_preserves[where P = "\<lambda>s1. activeServices s1 = activeServices s"])
     (simp_all add: addAlert_frame updateServerList_def Let_def split: option.splits)

lemma publish_statsUpdated:
  "publish (main_events cfg e) ''statsUpdated'' (Some (statsUpdated_data v)) s =
     and_then (statusModule_update e v True (chartModule_update cfg e v s)) (checkAlerts cfg e v)"
  by (simp add: publish_def main_events_statsUpdated chart_on_statsUpdated_def
      status_on_statsUpdated_def alert_on_statsUpdated_def destructure_def statsUpdated_data_def
      and_then_def split: prod.splits option.splits)


lemma truthy_opt_get:
  "truthy v \<Longrightarrow> opt_get v k = get v k"
  by (cases v) simp_all

lemma checkAlerts_no_lb:
  assumes "\<not> truthy (opt_get stats ''load-balancer'')"
  shows "checkAlerts cfg e stats s = (None, s)"
  using assms by (simp add: checkAlerts_def)


text \<open>
  \<open>checkAlerts\<close> when neither of its first two rules throws: the value a rule formats is
  a number, or the rule does not fire.
\<close>

lemma checkAlerts_rule_C:
  fixes stats :: jsval
  defines "lbData \<equiv> opt_get stats ''load-balancer''"
  assumes present: "serverList s \<noteq> None"
    and lb: "truthy lbData"
    and a: "(\<exists>r. get lbData ''success_rate'' = JNum r)
            \<or> js_lt e (get lbData ''success_rate'') 95 = Inr False"
    and b: "(\<exists>r. get lbData ''avg_response_time_ms'' = JNum r)
            \<or> js_gt e (get lbData ''avg_response_time_ms'') 500 = Inr False"
  shows "checkAlerts cfg e stats s =
     (None,
      if filter (\<lambda>sv. \<not> isHealthy sv) (fst (updateServerList stats True s)) \<noteq> []
      then addAlert cfg e Error (down_message (fst (updateServerList stats True s)))
             ((after_warnings cfg e lbData s)
                \<lparr> serverList := Some (fst (updateServerList stats True s)) \<rparr>)
      else (after_warnings cfg e lbData s)
                \<lparr> serverList := Some (fst (updateServerList stats True s)) \<rparr>)"
proof -
  have L: "fst (updateServerList stats True s) =
       \<lparr> name = ''Load Balancer'', isHealthy = True \<rparr>
        # (if truthy stats then collectServiceStates stats serviceDisplayNames else [])"
    using updateServerList_eq[OF present, of stats True] by simp
  have A: "(case js_lt e (get lbData ''success_rate'') 95 of
             Inl ex \<Rightarrow> (Some ex, s)
           | Inr low \<Rightarrow>
               if low then
                 (case toFixed_receiver (get lbData ''success_rate'') of
                    Inl ex \<Rightarrow> (Some ex, s)
                  | Inr r \<Rightarrow> (None, addAlert cfg e Warning
                               (''Success rate is low: '' @ text_of (env_toFixed1 e r) @ ''%'') s))
               else (None, s))
        = (None, case get lbData ''success_rate'' of
                  JNum r \<Rightarrow>
                    if r < 95
                    then addAlert cfg e Warning
                           (''Success rate is low: '' @ text_of (env_toFixed1 e r) @ ''%'') s
                    else s
                | _ \<Rightarrow> s)"
  proof (cases "\<exists>r. get lbData ''success_rate'' = JNum r")
    case True
    then show ?thesis by (auto simp: js_lt_def toFixed_receiver_def)
  next
    case False
    then have "js_lt e (get lbData ''success_rate'') 95 = Inr False" using a by blast
    then show ?thesis using False by (cases "get lbData ''success_rate''") simp_all
  qed
  have B: "(case js_gt e (get lbData ''avg_response_time_ms'') 500 of
                Inl ex \<Rightarrow> (Some ex, s1)
              | Inr high \<Rightarrow>
                  if high then
                    (case toFixed_receiver (get lbData ''avg_response_time_ms'') of
                       Inl ex \<Rightarrow> (Some ex, s1)
                     | Inr r \<Rightarrow> (None, addAlert cfg e Warning
                                  (''High response time: '' @ text_of (env_toFixed1 e r) @ ''ms'')
                                  s1))
                  else (None, s1))
        = (None, case get lbData ''avg_response_time_ms'' of
           JNum r \<Rightarrow>
             if r > 500
             then addAlert cfg e Warning
                    (''High response time: '' @ text_of (env_toFixed1 e r) @ ''ms'') s1
             else s1
         | _ \<Rightarrow> s1)" for s1
  proof (cases "\<exists>r. get lbData ''avg_response_time_ms'' = JNum r")
    case True
    then show ?thesis by (auto simp: js_gt_def toFixed_receiver_def)
  next
    case False
    then have "js_gt e (get lbData ''avg_response_time_ms'') 500 = Inr False" using b by blast
    then show ?thesis using False by (cases "get lbData ''avg_response_time_ms''") simp_all
  qed
  have W: "serverList (after_warnings cfg e lbData s) \<noteq> None"
    using present
    by (simp add: after_warnings_def Let_def addAlert_frame split: jsval.splits)
  show ?thesis
    unfolding checkAlerts_def
    apply (simp only: Let_def[of "opt_get stats ''load-balancer''"])
    apply (simp only: lbData_def[symmetric] lb not_True_eq_False if_False A)
    apply (simp only: and_then_def prod.case option.case B)
    apply (fold after_warnings_def[unfolded Let_def, of cfg e lbData s])
    apply (simp add: updateServerList_eq[OF W] L down_message_def Let_def)
    done
qed

lemma numeric_rules:
  assumes "numeric_or_absent v"
  shows "(\<exists>r. v = JNum r) \<or> js_lt e v c = Inr False"
    and "(\<exists>r. v = JNum r) \<or> js_gt e v c = Inr False"
  using assms by (cases v; simp add: numeric_or_absent_def js_lt_def js_gt_def)+

lemma checkAlerts_typed:
  fixes stats :: jsval
  defines "lbData \<equiv> opt_get stats ''load-balancer''"
  assumes present: "serverList s \<noteq> None" and tr: "truthy stats" and num: "numeric_fields stats"
    and lb: "truthy lbData"
  shows "checkAlerts cfg e stats s =
     (None,
      if filter (\<lambda>sv. \<not> isHealthy sv) (fst (updateServerList stats True s)) \<noteq> []
      then addAlert cfg e Error (down_message (fst (updateServerList stats True s)))
             ((after_warnings cfg e lbData s)
                \<lparr> serverList := Some (fst (updateServerList stats True s)) \<rparr>)
      else (after_warnings cfg e lbData s)
                \<lparr> serverList := Some (fst (updateServerList stats True s)) \<rparr>)"
proof -
  have g: "lbData = get stats ''load-balancer''"
    unfolding lbData_def using tr by (rule truthy_opt_get)
  have f: "get lbData k = opt_get (get stats ''load-balancer'') k" for k
    using lb truthy_opt_get[of lbData k] by (simp add: g)
  have n1: "numeric_or_absent (get lbData ''success_rate'')"
    and n2: "numeric_or_absent (get lbData ''avg_response_time_ms'')"
    using numeric_fieldsD(2,4)[OF num] by (simp_all add: f)
  show ?thesis
    unfolding lbData_def
    by (rule checkAlerts_rule_C[OF present lb[unfolded lbData_def]
          numeric_rules(1)[OF n1[unfolded lbData_def]]
          numeric_rules(2)[OF n2[unfolded lbData_def]]])
qed


lemma checkAlerts_typed_fst:
  assumes "serverList s \<noteq> None" "truthy stats" "numeric_fields stats"
  shows "fst (checkAlerts cfg e stats s) = None"
proof (cases "truthy (opt_get stats ''load-balancer'')")
  case True
  show ?thesis
    by (subst checkAlerts_typed[OF assms True]) simp
next
  case False
  then show ?thesis by (simp add: checkAlerts_no_lb)
qed

lemma settle_typed:
  assumes "serverList s \<noteq> None" "truthy stats" "numeric_fields stats"
  shows "fetchAllStats_settle cfg e (Decoded stats) s =
     (None, snd (checkAlerts cfg e stats
                   (snd (statusModule_update e stats True (chartModule_update cfg e stats s)))))"
proof -
  let ?s1 = "chartModule_update cfg e stats s"
  let ?s2 = "snd (statusModule_update e stats True ?s1)"
  have p1: "serverList ?s1 \<noteq> None" using assms(1) by (simp add: chartModule_update_frame)
  have u: "statusModule_update e stats True ?s1 = (None, ?s2)"
    using update_typed(1)[OF p1 assms(2,3), of e] by (simp add: prod_eq_iff)
  have p2: "serverList ?s2 \<noteq> None"
    using update_typed(6)[OF p1 assms(2,3), of e] by simp
  have c: "checkAlerts cfg e stats ?s2 = (None, snd (checkAlerts cfg e stats ?s2))"
    using checkAlerts_typed_fst[OF p2 assms(2,3), of cfg e] by (simp add: prod_eq_iff)
  have "publish (main_events cfg e) ''statsUpdated'' (Some (statsUpdated_data stats)) s
        = (None, snd (checkAlerts cfg e stats ?s2))"
    apply (subst publish_statsUpdated)
    apply (subst u)
    apply (simp only: and_then_def prod.case option.case)
    apply (rule c)
    done
  then show ?thesis by (simp add: fetchAllStats_settle_def)
qed





subsection \<open>Text without markup\<close>

lemma plain_append:
  "plain (a @ b) \<longleftrightarrow> plain a \<and> plain b"
  by (simp add: plain_def)

lemma plain_text_of:
  "plain (text_of t)"
  using text_of[of t] by simp

lemma text_of_question_mark:
  "text_of question_mark = ''?''"
  by (rule question_mark.rep_eq)

lemma alert_textContent_plain:
  "plain m \<Longrightarrow> alert_textContent e ty m = type_toUpperCase ty @ '': '' @ m"
  by (simp add: alert_textContent_def)

lemma plain_rule_messages:
  "plain (''Success rate is low: '' @ text_of (env_toFixed1 e r) @ ''%'')"
  "plain (''High response time: '' @ text_of (env_toFixed1 e r) @ ''ms'')"
  using plain_text_of[of "env_toFixed1 e r"] by (simp_all add: plain_def plain_char_def)

lemma addAlert_empty:
  assumes "alerts s = Some []" and "0 < maxAlerts cfg" and "plain m"
  shows "alerts (addAlert cfg e ty m s) =
     Some [\<lparr> className = ''alert-box alert-'' @ type_name ty,
             textContent = type_toUpperCase ty @ '': '' @ m \<rparr>]"
  using assms by (simp add: addAlert_def new_alert_def alert_textContent_def Let_def)

subsection \<open>Error rate\<close>

lemma zero_rate_lb:
  "truthy snapshot_zero_rate"
  "numeric_fields snapshot_zero_rate"
  "get snapshot_zero_rate ''load-balancer'' = JObj [(''success_rate'', JNum 0)]"
  "opt_get snapshot_zero_rate ''load-balancer'' = JObj [(''success_rate'', JNum 0)]"
  "opt_get snapshot_zero_rate ''cache'' = JUndefined"
  "collectServiceStates snapshot_zero_rate serviceDisplayNames = []"
  by (simp_all add: snapshot_zero_rate_def serviceDisplayNames_def numeric_fields_def
      numeric_or_absent_def)

text \<open>
  The error rate for a snapshot whose formatted fields are numbers or absent: with a
  success rate \<open>r\<close> other than zero it is the double nearest to \<open>100 - r\<close>, and \<open>0\<close> when
  the rate is zero or absent.
\<close>

lemma update_errorRate_general:
  assumes "serverList s \<noteq> None" and "truthy stats" and "numeric_fields stats"
  shows "fst (statusModule_update e stats True s) = None"
    and "errorRate (snd (statusModule_update e stats True s)) =
       Some (case opt_get (get stats ''load-balancer'') ''success_rate'' of
               JNum r \<Rightarrow> if r = 0 then 0 else fl e (100 - r) | _ \<Rightarrow> 0)"
  by (rule update_typed(1)[OF assms], rule update_typed(4)[OF assms])

text \<open>
  Claim C7. The error rate shown is \<open>100 - (success_rate || 100)\<close>. For the snapshot
  whose load balancer reports a success rate of \<open>0\<close>, the value shown is \<open>0\<close>, not
  \<open>100 - 0\<close>: \<open>statusModule.update\<close> returns normally and the page shows a success rate of
  \<open>0.0%\<close>, an error rate of \<open>0.0%\<close> and the status \<open>HEALTHY\<close>, while \<open>checkAlerts\<close> on the
  same snapshot raises the warning that the success rate is low. (For a success rate \<open>r\<close>
  other than zero the value is the double nearest to \<open>100 - r\<close>, and \<open>0\<close> when the field is
  absent: lemma \<open>update_errorRate_general\<close>.)
\<close>

theorem zero_success_rate_display:
  assumes "serverList s \<noteq> None" and "alerts s = Some []" and "0 < maxAlerts cfg"
  shows "fst (statusModule_update e snapshot_zero_rate True s) = None
       \<and> errorRate (snd (statusModule_update e snapshot_zero_rate True s)) = Some 0
       \<and> successRate (snd (statusModule_update e snapshot_zero_rate True s)) = 0
       \<and> overallStatus (snd (statusModule_update e snapshot_zero_rate True s)) = ''HEALTHY''
       \<and> fst (checkAlerts cfg e snapshot_zero_rate s) = None
       \<and> alerts (snd (checkAlerts cfg e snapshot_zero_rate s)) =
           Some [\<lparr> className = ''alert-box alert-warning'',
                   textContent = ''WARNING: Success rate is low: ''
                                 @ text_of (env_toFixed1 e 0) @ ''%'' \<rparr>]"
proof -
  note u = update_typed[OF assms(1) zero_rate_lb(1,2), of e]
  have 0: "fst (statusModule_update e snapshot_zero_rate True s) = None" by (rule u(1))
  have 1: "errorRate (snd (statusModule_update e snapshot_zero_rate True s)) = Some 0"
    "successRate (snd (statusModule_update e snapshot_zero_rate True s)) = 0"
    by (simp_all add: u(4,5) zero_rate_lb)
  have 2: "overallStatus (snd (statusModule_update e snapshot_zero_rate True s)) = ''HEALTHY''"
    by (simp add: u(2) zero_rate_lb updateServerList_eq[OF assms(1)])
  have lb: "truthy (opt_get snapshot_zero_rate ''load-balancer'')"
    by (simp add: zero_rate_lb)
  have 3: "fst (checkAlerts cfg e snapshot_zero_rate s) = None"
    by (rule checkAlerts_typed_fst[OF assms(1) zero_rate_lb(1,2)])
  have 4: "alerts (snd (checkAlerts cfg e snapshot_zero_rate s)) =
           Some [\<lparr> className = ''alert-box alert-warning'',
                   textContent = ''WARNING: Success rate is low: ''
                                 @ text_of (env_toFixed1 e 0) @ ''%'' \<rparr>]"
    apply (subst checkAlerts_typed[OF assms(1) zero_rate_lb(1,2) lb])
    using addAlert_empty[OF assms(2,3) plain_rule_messages(1), of e Warning e 0]
    apply (simp add: zero_rate_lb updateServerList_eq[OF assms(1)] after_warnings_def Let_def)
    done
  show ?thesis using 0 1 2 3 4 by simp
qed

theorem zero_success_rate_display_witness:
  "serverList initialized \<noteq> None \<and> alerts initialized = Some [] \<and> 0 < maxAlerts config
   \<and> errorRate (snd (statusModule_update env0 snapshot_zero_rate True initialized)) = Some 0
   \<and> successRate (snd (statusModule_update env0 snapshot_zero_rate True initialized)) = 0"
  using zero_success_rate_display[of initialized config env0]
  by (simp add: initialized_def config_def)

subsection \<open>The scenario of the specification\<close>

lemma scenario_lb:
  "truthy snapshot_scenario"
  "numeric_fields snapshot_scenario"
  "truthy (opt_get snapshot_scenario ''load-balancer'')"
  "get (opt_get snapshot_scenario ''load-balancer'') ''success_rate'' = JNum (496 / 5)"
  "get (opt_get snapshot_scenario ''load-balancer'') ''avg_response_time_ms'' = JNum 40"
  "opt_get (get snapshot_scenario ''load-balancer'') ''success_rate'' = JNum (496 / 5)"
  "collectServiceStates snapshot_scenario serviceDisplayNames =
     [\<lparr> name = ''Auth Service'', isHealthy = True \<rparr>,
      \<lparr> name = ''Database'', isHealthy = True \<rparr>,
      \<lparr> name = ''Cache'', isHealthy = False \<rparr>]"
  by (simp_all add: snapshot_scenario_def serviceDisplayNames_def numeric_fields_def
      numeric_or_absent_def)

lemma scenario_list:
  assumes "serverList s \<noteq> None"
  shows "fst (updateServerList snapshot_scenario True s) =
           [\<lparr> name = ''Load Balancer'', isHealthy = True \<rparr>,
            \<lparr> name = ''Auth Service'', isHealthy = True \<rparr>,
            \<lparr> name = ''Database'', isHealthy = True \<rparr>,
            \<lparr> name = ''Cache'', isHealthy = False \<rparr>]"
  by (simp add: updateServerList_eq[OF assms] scenario_lb)

lemma scenario_update:
  assumes "serverList s \<noteq> None"
  shows "fst (statusModule_update e snapshot_scenario True s) = None"
    "overallStatus (snd (statusModule_update e snapshot_scenario True s)) = ''DEGRADED''"
    "activeServices (snd (statusModule_update e snapshot_scenario True s)) = (3, 4)"
    "serverList (snd (statusModule_update e snapshot_scenario True s)) =
       Some [\<lparr> name = ''Load Balancer'', isHealthy = True \<rparr>,
             \<lparr> name = ''Auth Service'', isHealthy = True \<rparr>,
             \<lparr> name = ''Database'', isHealthy = True \<rparr>,
             \<lparr> name = ''Cache'', isHealthy = False \<rparr>]"
  using update_typed(1,2,3,6)[OF assms scenario_lb(1,2), of e]
  by (simp_all add: scenario_list[OF assms])

lemma plain_cache_down: "plain ''Cache service(s) are down.''"
  by (simp add: plain_def plain_char_def)

lemma scenario_checkAlerts:
  assumes "serverList s \<noteq> None" "alerts s = Some []" "0 < maxAlerts cfg"
  shows "fst (checkAlerts cfg e snapshot_scenario s) = None"
    "alerts (snd (checkAlerts cfg e snapshot_scenario s)) =
       Some [\<lparr> className = ''alert-box alert-error'',
               textContent = ''ERROR: Cache service(s) are down.'' \<rparr>]"
proof -
  show "fst (checkAlerts cfg e snapshot_scenario s) = None"
    by (rule checkAlerts_typed_fst[OF assms(1) scenario_lb(1,2)])
  have w: "after_warnings cfg e (opt_get snapshot_scenario ''load-balancer'') s = s"
    by (simp add: after_warnings_def scenario_lb(4,5))
  let ?s1 = "s\<lparr> serverList := Some (fst (updateServerList snapshot_scenario True s)) \<rparr>"
  have a: "alerts ?s1 = Some []" using assms(2) by simp
  show "alerts (snd (checkAlerts cfg e snapshot_scenario s)) =
       Some [\<lparr> className = ''alert-box alert-error'',
               textContent = ''ERROR: Cache service(s) are down.'' \<rparr>]"
    apply (subst checkAlerts_typed[OF assms(1) scenario_lb(1,2,3)])
    using addAlert_empty[OF a assms(3) plain_cache_down, of e Error]
    apply (simp add: w scenario_list[OF assms(1)] down_message_def)
    done
qed

lemma scenario_settle:
  assumes "serverList s \<noteq> None" "alerts s = Some []" "0 < maxAlerts cfg"
  shows "fst (fetchAllStats_settle cfg e (Decoded snapshot_scenario) s) = None"
    "overallStatus (snd (fetchAllStats_settle cfg e (Decoded snapshot_scenario) s)) = ''DEGRADED''"
    "activeServices (snd (fetchAllStats_settle cfg e (Decoded snapshot_scenario) s)) = (3, 4)"
    "alerts (snd (fetchAllStats_settle cfg e (Decoded snapshot_scenario) s)) =
       Some [\<lparr> className = ''alert-box alert-error'',
               textContent = ''ERROR: Cache service(s) are down.'' \<rparr>]"
proof -
  let ?s1 = "chartModule_update cfg e snapshot_scenario s"
  let ?s2 = "snd (statusModule_update e snapshot_scenario True ?s1)"
  have p1: "serverList ?s1 \<noteq> None" "alerts ?s1 = Some []"
    using assms by (simp_all add: chartModule_update_frame)
  have p2: "serverList ?s2 \<noteq> None" "alerts ?s2 = Some []" "overallStatus ?s2 = ''DEGRADED''"
    "activeServices ?s2 = (3, 4)"
    using scenario_update(2,3,4)[OF p1(1), of e] update_alerts[of e snapshot_scenario True ?s1] p1
    by simp_all
  have set: "fetchAllStats_settle cfg e (Decoded snapshot_scenario) s
             = (None, snd (checkAlerts cfg e snapshot_scenario ?s2))"
    by (rule settle_typed[OF assms(1) scenario_lb(1,2)])
  show "fst (fetchAllStats_settle cfg e (Decoded snapshot_scenario) s) = None" by (simp add: set)
  show "alerts (snd (fetchAllStats_settle cfg e (Decoded snapshot_scenario) s)) =
       Some [\<lparr> className = ''alert-box alert-error'',
               textContent = ''ERROR: Cache service(s) are down.'' \<rparr>]"
    by (simp only: set snd_conv scenario_checkAlerts(2)[OF p2(1,2) assms(3)])
  show "overallStatus (snd (fetchAllStats_settle cfg e (Decoded snapshot_scenario) s)) = ''DEGRADED''"
    by (simp only: set snd_conv checkAlerts_overallStatus p2(3))
  show "activeServices (snd (fetchAllStats_settle cfg e (Decoded snapshot_scenario) s)) = (3, 4)"
    by (simp only: set snd_conv checkAlerts_activeServices p2(4))
qed

text \<open>
  Claim C5, as amended. For the snapshot of the scenario, on a page whose alert list is
  empty: the server list has four entries, \<open>Load Balancer\<close>, \<open>Auth Service\<close>, \<open>Database\<close>
  and \<open>Cache\<close>, of which \<open>Cache\<close> is not healthy (\<open>cache\<close> is a key of
  \<open>serviceDisplayNames\<close> and its value has neither \<open>status: "healthy"\<close> nor
  \<open>service_status: "online"\<close>); the status is \<open>DEGRADED\<close> with 3 of 4 services healthy; and
  \<open>checkAlerts\<close> raises exactly one alert, the error that the Cache service is down. The
  same holds for the whole reaction to the decoded snapshot.
\<close>

theorem scenario_snapshot_degraded:
  assumes "serverList s \<noteq> None" and "alerts s = Some []" and "0 < maxAlerts cfg"
  shows "fst (updateServerList snapshot_scenario True s) =
           [\<lparr> name = ''Load Balancer'', isHealthy = True \<rparr>,
            \<lparr> name = ''Auth Service'', isHealthy = True \<rparr>,
            \<lparr> name = ''Database'', isHealthy = True \<rparr>,
            \<lparr> name = ''Cache'', isHealthy = False \<rparr>]
       \<and> fst (statusModule_update e snapshot_scenario True s) = None
       \<and> overallStatus (snd (statusModule_update e snapshot_scenario True s)) = ''DEGRADED''
       \<and> activeServices (snd (statusModule_update e snapshot_scenario True s)) = (3, 4)
       \<and> fst (checkAlerts cfg e snapshot_scenario s) = None
       \<and> alerts (snd (checkAlerts cfg e snapshot_scenario s)) =
           Some [\<lparr> className = ''alert-box alert-error'',
                   textContent = ''ERROR: Cache service(s) are down.'' \<rparr>]
       \<and> fst (fetchAllStats_settle cfg e (Decoded snapshot_scenario) s) = None
       \<and> overallStatus (snd (fetchAllStats_settle cfg e (Decoded snapshot_scenario) s)) = ''DEGRADED''
       \<and> activeServices (snd (fetchAllStats_settle cfg e (Decoded snapshot_scenario) s)) = (3, 4)
       \<and> alerts (snd (fetchAllStats_settle cfg e (Decoded snapshot_scenario) s)) =
           Some [\<lparr> className = ''alert-box alert-error'',
                   textContent = ''ERROR: Cache service(s) are down.'' \<rparr>]"
  using scenario_update(1,2,3)[OF assms(1), of e] scenario_checkAlerts[OF assms, of e]
    scenario_settle[OF assms, of e] scenario_list[OF assms(1)]
  by simp

theorem scenario_snapshot_degraded_witness:
  "serverList initialized \<noteq> None \<and> alerts initialized = Some [] \<and> 0 < maxAlerts config
   \<and> overallStatus (snd (fetchAllStats_settle config env0 (Decoded snapshot_scenario) initialized))
     = ''DEGRADED''
   \<and> activeServices (snd (fetchAllStats_settle config env0 (Decoded snapshot_scenario) initialized))
     = (3, 4)
   \<and> alerts (snd (fetchAllStats_settle config env0 (Decoded snapshot_scenario) initialized)) =
           Some [\<lparr> className = ''alert-box alert-error'',
                   textContent = ''ERROR: Cache service(s) are down.'' \<rparr>]"
  using scenario_snapshot_degraded[of initialized config env0]
  by (simp add: initialized_def config_def)

text \<open>
  Claim C5 as stated fails: the result for the scenario's snapshot is not \<open>HEALTHY\<close> with
  3 of 3 services and no alert.
\<close>

theorem scenario_snapshot_not_healthy:
  "\<not> (overallStatus (snd (fetchAllStats_settle config env0 (Decoded snapshot_scenario) initialized))
        = ''HEALTHY''
      \<and> activeServices (snd (fetchAllStats_settle config env0 (Decoded snapshot_scenario) initialized))
        = (3, 3)
      \<and> alerts (snd (fetchAllStats_settle config env0 (Decoded snapshot_scenario) initialized))
        = Some [])"
proof -
  have "overallStatus (snd (fetchAllStats_settle config env0 (Decoded snapshot_scenario) initialized))
        = ''DEGRADED''"
    by (rule scenario_settle(2)) (simp_all add: initialized_def config_def)
  then show ?thesis by simp
qed

subsection \<open>Exceptions in subscribers\<close>

lemma forEach_append:
  "forEach (xs @ ys) d s =
     (case forEach xs d s of (Some ex, s') \<Rightarrow> (Some ex, s') | (None, s') \<Rightarrow> forEach ys d s')"
  by (induction xs arbitrary: s) (auto split: prod.splits option.splits)

text \<open>
  Claim C3, as amended. \<open>publish\<close> calls the callbacks of the topic in subscription order
  and does not catch what they throw. If a callback throws, after the callbacks subscribed
  before it have returned, the exception reaches the caller of \<open>publish\<close> with the state
  as that callback left it, and the callbacks subscribed after it are not called: the
  result is the same as if they had never subscribed. If it returns, the remaining
  callbacks run on the state it left.
\<close>

theorem publish_propagates_exception:
  assumes "events eventName = Some (pre @ cb # post)"
    and "forEach pre d s = (None, s1)"
  shows "(cb d s1 = (Some ex, s2) \<longrightarrow>
            publish events eventName d s = (Some ex, s2)
            \<and> publish events eventName d s
                = publish (events(eventName \<mapsto> pre @ [cb])) eventName d s)
       \<and> (cb d s1 = (None, s2) \<longrightarrow> publish events eventName d s = forEach post d s2)"
  using assms by (auto simp: publish_def forEach_append)

lemma updateServerList_fst:
  assumes "serverList s \<noteq> None"
  shows "fst (updateServerList stats b s) =
     \<lparr> name = ''Load Balancer'', isHealthy = b \<rparr>
        # (if truthy stats then collectServiceStates stats serviceDisplayNames else [])"
  by (simp add: updateServerList_eq[OF assms])

lemma bad_rps_lb:
  "truthy snapshot_bad_rps"
  "get snapshot_bad_rps ''load-balancer'' =
     JObj [(''success_rate'', JNum 99), (''avg_response_time_ms'', JNum 900),
           (''requests_per_second'', JStr ''12'')]"
  "opt_get snapshot_bad_rps ''load-balancer'' =
     JObj [(''success_rate'', JNum 99), (''avg_response_time_ms'', JNum 900),
           (''requests_per_second'', JStr ''12'')]"
  "collectServiceStates snapshot_bad_rps serviceDisplayNames = []"
  by (simp_all add: snapshot_bad_rps_def serviceDisplayNames_def)

lemma bad_rps_update:
  assumes "serverList s \<noteq> None"
  shows "fst (statusModule_update e snapshot_bad_rps True s)
         = Some (TypeError ''toFixed is not a function'')"
    "alerts (snd (statusModule_update e snapshot_bad_rps True s)) = alerts s"
    "serverList (snd (statusModule_update e snapshot_bad_rps True s)) \<noteq> None"
  by (simp_all add: statusModule_update_def bad_rps_lb updateServerList_eq[OF assms] Let_def
       and_then_def js_or_def js_lt_def toFixed_receiver_def)

lemma bad_rps_checkAlerts:
  assumes "serverList s \<noteq> None" "alerts s = Some []" "0 < maxAlerts cfg"
  shows "alerts (snd (checkAlerts cfg e snapshot_bad_rps s)) =
       Some [\<lparr> className = ''alert-box alert-warning'',
               textContent = ''WARNING: High response time: ''
                             @ text_of (env_toFixed1 e 900) @ ''ms'' \<rparr>]"
  using addAlert_empty[OF assms(2,3) plain_rule_messages(2), of e Warning e 900] assms(1)
  by (simp add: checkAlerts_def bad_rps_lb updateServerList_fst and_then_def case_prod_beta
        js_lt_def js_gt_def Let_def toFixed_receiver_def updateServerList_frame addAlert_frame)

lemma bad_rps_publish:
  assumes "serverList s \<noteq> None"
  shows "fst (publish (main_events cfg e) ''statsUpdated''
            (Some (statsUpdated_data snapshot_bad_rps)) s)
      = Some (TypeError ''toFixed is not a function'')"
   "alerts (snd (publish (main_events cfg e) ''statsUpdated''
            (Some (statsUpdated_data snapshot_bad_rps)) s))
      = alerts s"
   "serverList (snd (publish (main_events cfg e) ''statsUpdated''
            (Some (statsUpdated_data snapshot_bad_rps)) s))
      \<noteq> None"
proof -
  let ?s1 = "chartModule_update cfg e snapshot_bad_rps s"
  have p: "serverList ?s1 \<noteq> None" using assms by (simp add: chartModule_update_frame)
  obtain s2 where u: "statusModule_update e snapshot_bad_rps True ?s1
      = (Some (TypeError ''toFixed is not a function''), s2)"
    using bad_rps_update(1)[OF p, of e]
    by (cases "statusModule_update e snapshot_bad_rps True ?s1") auto
  have q: "alerts s2 = alerts s" "serverList s2 \<noteq> None"
    using bad_rps_update(2,3)[OF p, of e] u by (simp_all add: chartModule_update_frame)
  have pub: "publish (main_events cfg e) ''statsUpdated''
               (Some (statsUpdated_data snapshot_bad_rps)) s
     = (Some (TypeError ''toFixed is not a function''), s2)"
    by (simp add: publish_statsUpdated u and_then_def)
  show "fst (publish (main_events cfg e) ''statsUpdated''
            (Some (statsUpdated_data snapshot_bad_rps)) s)
      = Some (TypeError ''toFixed is not a function'')" by (simp add: pub)
  show "alerts (snd (publish (main_events cfg e) ''statsUpdated''
            (Some (statsUpdated_data snapshot_bad_rps)) s))
      = alerts s" by (simp add: pub q)
  show "serverList (snd (publish (main_events cfg e) ''statsUpdated''
            (Some (statsUpdated_data snapshot_bad_rps)) s))
      \<noteq> None" by (simp add: pub q)
qed

text \<open>
  The exception is caught in \<open>fetchAllStats\<close>, which publishes \<open>fetchError\<close>: the page then
  shows \<open>DISCONNECTED\<close>, although the response was decoded.
\<close>

lemma bad_rps_disconnected:
  assumes "serverList s \<noteq> None"
  shows "overallStatus (snd (fetchAllStats_settle cfg e (Decoded snapshot_bad_rps) s))
         = ''DISCONNECTED''"
proof -
  obtain s2 where pub: "publish (main_events cfg e) ''statsUpdated''
               (Some (statsUpdated_data snapshot_bad_rps)) s
     = (Some (TypeError ''toFixed is not a function''), s2)"
    using bad_rps_publish(1)[OF assms, of cfg e]
    by (cases "publish (main_events cfg e) ''statsUpdated''
               (Some (statsUpdated_data snapshot_bad_rps)) s") auto
  show ?thesis
    by (simp add: fetchAllStats_settle_def pub publish_fetchError addLog_frame
        updateServerList_frame)
qed

text \<open>
  Claim C3 as stated fails. For a snapshot whose \<open>requests_per_second\<close> is a string,
  the callback of \<open>statusModule\<close> throws a TypeError; \<open>publish\<close> passes it on to its
  caller, and the callback of \<open>alertModule\<close>, subscribed after it, does not run: the alert
  list stays empty, although that callback, run on the state reached, raises an alert.
\<close>

theorem later_subscriber_not_run:
  "fst (publish (main_events config env0) ''statsUpdated''
          (Some (statsUpdated_data snapshot_bad_rps)) initialized)
     = Some (TypeError ''toFixed is not a function'')
   \<and> alerts (snd (publish (main_events config env0) ''statsUpdated''
          (Some (statsUpdated_data snapshot_bad_rps)) initialized)) = Some []
   \<and> alerts (snd (alert_on_statsUpdated config env0 (Some (statsUpdated_data snapshot_bad_rps))
        (snd (publish (main_events config env0) ''statsUpdated''
          (Some (statsUpdated_data snapshot_bad_rps)) initialized))))
     = Some [\<lparr> className = ''alert-box alert-warning'',
               textContent = ''WARNING: High response time: ?ms'' \<rparr>]"
proof -
  have i: "serverList initialized \<noteq> None" "alerts initialized = Some []" "0 < maxAlerts config"
    by (simp_all add: initialized_def config_def)
  let ?s = "snd (publish (main_events config env0) ''statsUpdated''
          (Some (statsUpdated_data snapshot_bad_rps)) initialized)"
  have a: "alerts ?s = Some []" "serverList ?s \<noteq> None"
    using bad_rps_publish(2,3)[OF i(1), of config env0] i(2) by simp_all
  have "alerts (snd (checkAlerts config env0 snapshot_bad_rps ?s)) =
       Some [\<lparr> className = ''alert-box alert-warning'',
               textContent = ''WARNING: High response time: ''
                             @ text_of (env_toFixed1 env0 900) @ ''ms'' \<rparr>]"
    using a i(3) by (intro bad_rps_checkAlerts) simp_all
  then show ?thesis
    using bad_rps_publish(1)[OF i(1), of config env0] a
    by (simp add: alert_on_statsUpdated_def destructure_def statsUpdated_data_def env0_def
        text_of_question_mark)
qed

theorem publish_propagates_exception_witness:
  "publish (main_events config env0) ''statsUpdated''
          (Some (statsUpdated_data snapshot_bad_rps)) initialized
   = publish ((main_events config env0)(''statsUpdated'' \<mapsto>
         [chart_on_statsUpdated config env0, status_on_statsUpdated env0])) ''statsUpdated''
          (Some (statsUpdated_data snapshot_bad_rps)) initialized"
proof -
  let ?d = "Some (statsUpdated_data snapshot_bad_rps)"
  let ?s1 = "chartModule_update config env0 snapshot_bad_rps initialized"
  have i: "serverList ?s1 \<noteq> None"
    by (simp add: chartModule_update_frame initialized_def)
  have 1: "main_events config env0 ''statsUpdated''
      = Some ([chart_on_statsUpdated config env0] @ status_on_statsUpdated env0
               # [alert_on_statsUpdated config env0])"
    by (simp add: main_events_statsUpdated)
  have 2: "forEach [chart_on_statsUpdated config env0] ?d initialized = (None, ?s1)"
    by (simp add: chart_on_statsUpdated_def destructure_def statsUpdated_data_def)
  obtain s2 where 3: "status_on_statsUpdated env0 ?d ?s1
      = (Some (TypeError ''toFixed is not a function''), s2)"
    using bad_rps_update(1)[OF i, of env0]
    by (cases "statusModule_update env0 snapshot_bad_rps True ?s1")
       (auto simp: status_on_statsUpdated_def destructure_def statsUpdated_data_def)
  have "publish (main_events config env0) ''statsUpdated'' ?d initialized
        = publish ((main_events config env0)(''statsUpdated'' \<mapsto>
            [chart_on_statsUpdated config env0] @ [status_on_statsUpdated env0]))
            ''statsUpdated'' ?d initialized"
    using publish_propagates_exception[where events = "main_events config env0"
        and eventName = "''statsUpdated''" and pre = "[chart_on_statsUpdated config env0]"
        and cb = "status_on_statsUpdated env0" and post = "[alert_on_statsUpdated config env0]"
        and d = ?d and s = initialized and ?s1.0 = ?s1
        and ex = "TypeError ''toFixed is not a function''" and ?s2.0 = s2, OF 1 2] 3
    by blast
  then show ?thesis by simp
qed

subsection \<open>The polling timer\<close>

lemma publish_log:
  "publish (main_events cfg e) ''log'' (Some (log_data m ty)) s =
     (None, addLog cfg e m (case ty of None \<Rightarrow> ''info'' | Some t \<Rightarrow> t) s)"
  by (simp add: publish_def main_events_log utility_on_log_def destructure_def log_data_def)

lemma clear_fetchInterval_timers:
  assumes "timers_wf s"
  shows "fetch_timers (clear_fetchInterval s) = []"
    "nextTimerId (clear_fetchInterval s) = nextTimerId s"
    "list_all (\<lambda>t. 0 < timer_id t \<and> timer_id t < nextTimerId s)
       (timers (clear_fetchInterval s))"
proof -
  show "nextTimerId (clear_fetchInterval s) = nextTimerId s"
    by (simp add: clear_fetchInterval_def clearInterval_def split: option.splits)
  show "list_all (\<lambda>t. 0 < timer_id t \<and> timer_id t < nextTimerId s)
          (timers (clear_fetchInterval s))"
    using assms
    by (auto simp: clear_fetchInterval_def clearInterval_def timers_wf_def list_all_iff
        split: option.splits)
  show "fetch_timers (clear_fetchInterval s) = []"
  proof (cases "fetchIntervalId s")
    case None
    then show ?thesis using assms
      by (cases "fetch_timers s") (auto simp: clear_fetchInterval_def timers_wf_def)
  next
    case (Some i)
    show ?thesis
    proof (cases "i = 0")
      case True
      have "fetch_timers s = []"
      proof (rule ccontr)
        assume "fetch_timers s \<noteq> []"
        then obtain t where t: "t \<in> set (fetch_timers s)" by (cases "fetch_timers s") auto
        then have "timer_id t = 0" using assms Some True by (auto simp: timers_wf_def list_all_iff)
        moreover have "t \<in> set (timers s)" using t by (simp add: fetch_timers_def)
        ultimately show False using assms by (auto simp: timers_wf_def list_all_iff)
      qed
      then show ?thesis using Some True by (simp add: clear_fetchInterval_def)
    next
      case False
      have "\<forall>t \<in> set (timers s). timer_callback t = FetchAllStatsTick \<longrightarrow> timer_id t = i"
        using assms Some by (auto simp: timers_wf_def list_all_iff fetch_timers_def)
      then have "filter (\<lambda>t. timer_callback t = FetchAllStatsTick)
                   (filter (\<lambda>t. timer_id t \<noteq> i) (timers s)) = []"
        by (auto simp: filter_empty_conv)
      then show ?thesis using Some False
        by (simp add: clear_fetchInterval_def clearInterval_def fetch_timers_def)
    qed
  qed
qed

lemma fetchAllStats_request_timers:
  "timers (snd (fetchAllStats_request s)) = timers s"
  "nextTimerId (snd (fetchAllStats_request s)) = nextTimerId s"
  "fetchIntervalId (snd (fetchAllStats_request s)) = fetchIntervalId s"
  by (simp_all add: fetchAllStats_request_def)

lemma start_result:
  "fst (start cfg e s) = None"
  "timers (snd (start cfg e s)) =
     timers (clear_fetchInterval (snd (fetchAllStats_request (s\<lparr> monitoringEnabled := True \<rparr>))))
     @ [\<lparr> timer_id = nextTimerId s, timer_callback = FetchAllStatsTick,
          timer_delay = refreshInterval cfg \<rparr>]"
  "fetchIntervalId (snd (start cfg e s)) = Some (nextTimerId s)"
  "nextTimerId (snd (start cfg e s)) = Suc (nextTimerId s)"
  "monitoringEnabled (snd (start cfg e s))"
  by (simp_all add: start_def Let_def setInterval_def publish_log addLog_frame
      clear_fetchInterval_def clearInterval_def fetchAllStats_request_def split: option.splits)

lemma timers_wf_cong:
  assumes "timers s' = timers s" "nextTimerId s' = nextTimerId s"
    and "fetchIntervalId s' = fetchIntervalId s"
  shows "timers_wf s' = timers_wf s"
  using assms by (simp add: timers_wf_def fetch_timers_def)

lemma start_one_timer:
  assumes "timers_wf s"
  shows "fetch_timers (snd (start cfg e s)) =
           [\<lparr> timer_id = nextTimerId s, timer_callback = FetchAllStatsTick,
              timer_delay = refreshInterval cfg \<rparr>]"
    and "timers_wf (snd (start cfg e s))"
proof -
  let ?s2 = "snd (fetchAllStats_request (s\<lparr> monitoringEnabled := True \<rparr>))"
  have wf2: "timers_wf ?s2"
    using assms timers_wf_cong[of ?s2 s] by (simp add: fetchAllStats_request_timers)
  have n2: "nextTimerId ?s2 = nextTimerId s" by (simp add: fetchAllStats_request_timers)
  note c = clear_fetchInterval_timers[OF wf2]
  show "fetch_timers (snd (start cfg e s)) =
           [\<lparr> timer_id = nextTimerId s, timer_callback = FetchAllStatsTick,
              timer_delay = refreshInterval cfg \<rparr>]"
    using c(1) by (simp add: fetch_timers_def start_result(2))
  show "timers_wf (snd (start cfg e s))"
    using c assms n2
    by (auto simp: timers_wf_def start_result fetch_timers_def list_all_iff less_Suc_eq)
qed

text \<open>
  Claim C9. \<open>start()\<close> clears the timer whose handle \<open>fetchIntervalId\<close> holds before it
  arms a new one with the delay \<open>refreshInterval\<close> (2000 ms in \<open>config\<close>) and records the
  new handle. So after \<open>start()\<close> exactly one armed timer calls \<open>fetchAllStats\<close>, and after
  two calls in a row there is still exactly one, the one armed by the second call.
\<close>

theorem start_single_fetch_timer:
  assumes "timers_wf s"
  shows "fetch_timers (snd (start cfg e s)) =
           [\<lparr> timer_id = nextTimerId s, timer_callback = FetchAllStatsTick,
              timer_delay = refreshInterval cfg \<rparr>]
       \<and> fetchIntervalId (snd (start cfg e s)) = Some (nextTimerId s)
       \<and> timers_wf (snd (start cfg e s))
       \<and> fetch_timers (snd (start cfg e (snd (start cfg e s)))) =
           [\<lparr> timer_id = Suc (nextTimerId s), timer_callback = FetchAllStatsTick,
              timer_delay = refreshInterval cfg \<rparr>]
       \<and> length (fetch_timers (snd (start cfg e (snd (start cfg e s))))) = 1
       \<and> refreshInterval config = 2000"
  using start_one_timer[OF assms, of cfg e]
    start_one_timer(1)[OF start_one_timer(2)[OF assms, of cfg e], of cfg e]
  by (simp add: start_result config_def)

theorem start_single_fetch_timer_witness:
  "timers_wf initialized
   \<and> timers (snd (start config env0 (snd (start config env0 initialized)))) =
       [\<lparr> timer_id = 1, timer_callback = UpdateTimeTick, timer_delay = 1000 \<rparr>,
        \<lparr> timer_id = 3, timer_callback = FetchAllStatsTick, timer_delay = 2000 \<rparr>]
   \<and> fetch_timers (snd (start config env0 (snd (start config env0 initialized)))) =
       [\<lparr> timer_id = 3, timer_callback = FetchAllStatsTick, timer_delay = 2000 \<rparr>]"
proof -
  have wf: "timers_wf initialized"
    by (simp add: timers_wf_def fetch_timers_def initialized_def)
  have t: "timers (snd (start config env0 (snd (start config env0 initialized)))) =
       [\<lparr> timer_id = 1, timer_callback = UpdateTimeTick, timer_delay = 1000 \<rparr>,
        \<lparr> timer_id = 3, timer_callback = FetchAllStatsTick, timer_delay = 2000 \<rparr>]"
    by (simp add: start_result clear_fetchInterval_def clearInterval_def
        fetchAllStats_request_def initialized_def config_def)
  show ?thesis
    using start_single_fetch_timer[OF wf, of config env0] wf t
    by (simp add: initialized_def config_def)
qed

subsection \<open>Alert insertion\<close>

lemma str_includes_sublist: "str_includes s m \<longleftrightarrow> sublist m s"
  by (induction s) (simp_all add: sublist_Cons_right)

lemma str_includes_suffix: "str_includes (p @ m) m"
  by (simp add: str_includes_sublist)

lemma new_alert_plain:
  assumes "plain m"
  shows "textContent (new_alert e ty m) = type_toUpperCase ty @ '': '' @ m"
  using assms by (simp add: new_alert_def alert_textContent_def)

lemma new_alert_includes:
  assumes "plain m"
  shows "str_includes (textContent (new_alert e ty m)) m"
  using str_includes_suffix[of "type_toUpperCase ty @ '': ''" m]
  by (simp add: new_alert_plain[OF assms])

lemma addAlert_skip:
  assumes "alerts s = Some children"
    and "list_ex (\<lambda>child. str_includes (textContent child) message) children"
  shows "addAlert cfg e ty message s = s"
  using assms by (simp add: addAlert_def)

lemma addAlert_insert:
  assumes "alerts s = Some children"
    and "\<not> list_ex (\<lambda>child. str_includes (textContent child) message) children"
  shows "addAlert cfg e ty message s =
     s\<lparr> alerts := Some (if length children \<ge> maxAlerts cfg
                          then butlast (new_alert e ty message # children)
                          else new_alert e ty message # children) \<rparr>"
  using assms by (auto simp: addAlert_def Let_def)

lemma trimmed_head:
  assumes "0 < n"
  shows "(if length children \<ge> n then butlast (a # children) else a # children)
         = a # (if length children \<ge> n then butlast children else children)"
  using assms by (cases children) auto

lemma addAlert_idem:
  assumes "alerts s = Some children" and "0 < maxAlerts cfg" and "plain message"
  shows "addAlert cfg e ty message (addAlert cfg e ty message s) = addAlert cfg e ty message s"
proof (cases "list_ex (\<lambda>child. str_includes (textContent child) message) children")
  case True
  then show ?thesis using assms by (simp add: addAlert_skip)
next
  case False
  let ?q = "new_alert e ty message
              # (if length children \<ge> maxAlerts cfg then butlast children else children)"
  have ins: "addAlert cfg e ty message s = s\<lparr> alerts := Some ?q \<rparr>"
    using addAlert_insert[OF assms(1) False, of cfg e ty]
    by (simp only: trimmed_head[OF assms(2)])
  have "list_ex (\<lambda>child. str_includes (textContent child) message) ?q"
    by (simp add: new_alert_includes[OF assms(3)])
  then show ?thesis unfolding ins by (intro addAlert_skip[where children = ?q]) simp_all
qed

text \<open>
  Claim C4, as amended. \<open>addAlert\<close> skips a new alert if and only if the text of some
  alert in the list contains the new message as a substring; an alert with the identical
  message is one such case, so it is never inserted twice, refreshed or moved. A message
  that no listed text contains is inserted at the head, the last alert being dropped when
  the list was full. For a message without markup characters (no \<open><\<close>, \<open>&\<close>, NUL or
  carriage return), the text of the inserted alert is \<open>TYPE: message\<close>, submitting the same
  message twice in a row changes nothing the second time, and when it was inserted the
  first time, exactly one entry of the list contains it. (A message with markup is
  assigned to \<open>innerHTML\<close>, and the text read back need not contain it: such a message
  can be inserted again.)
\<close>

theorem addAlert_dedup:
  assumes "alerts s = Some children" and "0 < maxAlerts cfg"
  shows "(list_ex (\<lambda>child. str_includes (textContent child) message) children
            \<longrightarrow> addAlert cfg e ty message s = s)
       \<and> (list_ex (\<lambda>child. textContent child = type_toUpperCase ty' @ '': '' @ message) children
            \<longrightarrow> addAlert cfg e ty message s = s)
       \<and> (\<not> list_ex (\<lambda>child. str_includes (textContent child) message) children
            \<longrightarrow> alerts (addAlert cfg e ty message s) =
                 Some (new_alert e ty message
                        # (if length children \<ge> maxAlerts cfg then butlast children else children)))
       \<and> (plain message \<longrightarrow>
             textContent (new_alert e ty message) = type_toUpperCase ty @ '': '' @ message
           \<and> addAlert cfg e ty message (addAlert cfg e ty message s) = addAlert cfg e ty message s
           \<and> (\<not> list_ex (\<lambda>child. str_includes (textContent child) message) children
                \<longrightarrow> length (filter (\<lambda>child. str_includes (textContent child) message)
                     (new_alert e ty message
                        # (if length children \<ge> maxAlerts cfg then butlast children else children)))
                   = 1))"
proof (intro conjI impI)
  assume "list_ex (\<lambda>child. str_includes (textContent child) message) children"
  then show "addAlert cfg e ty message s = s" using assms(1) by (simp add: addAlert_skip)
next
  assume "list_ex (\<lambda>child. textContent child = type_toUpperCase ty' @ '': '' @ message) children"
  then obtain c where c: "c \<in> set children"
      "textContent c = type_toUpperCase ty' @ '': '' @ message"
    by (auto simp: list_ex_iff)
  have "str_includes (textContent c) message"
    using str_includes_suffix[of "type_toUpperCase ty' @ '': ''" message] c(2) by simp
  then have "list_ex (\<lambda>child. str_includes (textContent child) message) children"
    using c(1) by (auto simp: list_ex_iff)
  then show "addAlert cfg e ty message s = s" using assms(1) by (simp add: addAlert_skip)
next
  assume no: "\<not> list_ex (\<lambda>child. str_includes (textContent child) message) children"
  let ?rest = "if length children \<ge> maxAlerts cfg then butlast children else children"
  have "addAlert cfg e ty message s = s\<lparr> alerts := Some (new_alert e ty message # ?rest) \<rparr>"
    using addAlert_insert[OF assms(1) no, of cfg e ty]
    by (simp only: trimmed_head[OF assms(2)])
  then show "alerts (addAlert cfg e ty message s) = Some (new_alert e ty message # ?rest)"
    by simp
next
  assume "plain message"
  then show "textContent (new_alert e ty message) = type_toUpperCase ty @ '': '' @ message"
    by (rule new_alert_plain)
next
  assume "plain message"
  with assms show
    "addAlert cfg e ty message (addAlert cfg e ty message s) = addAlert cfg e ty message s"
    by (rule addAlert_idem)
next
  assume pl: "plain message"
    and no: "\<not> list_ex (\<lambda>child. str_includes (textContent child) message) children"
  let ?rest = "if length children \<ge> maxAlerts cfg then butlast children else children"
  have "set ?rest \<subseteq> set children" by (auto dest: in_set_butlastD)
  then have "filter (\<lambda>child. str_includes (textContent child) message) ?rest = []"
    using no by (auto simp: filter_empty_conv list_ex_iff)
  then show "length (filter (\<lambda>child. str_includes (textContent child) message)
       (new_alert e ty message # ?rest)) = 1"
    by (simp add: new_alert_includes[OF pl])
qed

theorem addAlert_dedup_witness:
  "alerts initialized = Some [] \<and> 0 < maxAlerts config \<and> plain ''High response time: 900.0ms''
   \<and> addAlert config env0 Warning ''High response time: 900.0ms''
     (addAlert config env0 Warning ''High response time: 900.0ms'' initialized)
   = addAlert config env0 Warning ''High response time: 900.0ms'' initialized
   \<and> alerts (addAlert config env0 Warning ''High response time: 900.0ms'' initialized)
     = Some [\<lparr> className = ''alert-box alert-warning'',
               textContent = ''WARNING: High response time: 900.0ms'' \<rparr>]"
proof -
  have h: "alerts initialized = Some []" "0 < maxAlerts config"
    "plain ''High response time: 900.0ms''"
    "\<not> list_ex (\<lambda>child. str_includes (textContent child) ''High response time: 900.0ms'') []"
    by (simp_all add: initialized_def config_def plain_def plain_char_def)
  note t = addAlert_dedup[of initialized "[]" config "''High response time: 900.0ms''"
      env0 Warning Warning, OF h(1,2)]
  from t h(3) have
    "addAlert config env0 Warning ''High response time: 900.0ms''
       (addAlert config env0 Warning ''High response time: 900.0ms'' initialized)
     = addAlert config env0 Warning ''High response time: 900.0ms'' initialized"
    by blast
  moreover from t h(4) have
    "alerts (addAlert config env0 Warning ''High response time: 900.0ms'' initialized)
     = Some (new_alert env0 Warning ''High response time: 900.0ms''
              # (if length ([] :: alert_li list) \<ge> maxAlerts config then butlast [] else []))"
    by blast
  moreover from t h(3) have
    "textContent (new_alert env0 Warning ''High response time: 900.0ms'')
     = type_toUpperCase Warning @ '': '' @ ''High response time: 900.0ms''"
    by blast
  ultimately show ?thesis using h(1,2,3)
    by (simp add: new_alert_def)
qed

lemma two_down_lb:
  "opt_get snapshot_two_down ''load-balancer'' = JObj [(''success_rate'', JNum 99)]"
  "truthy snapshot_two_down"
  "collectServiceStates snapshot_two_down serviceDisplayNames =
     [\<lparr> name = ''Auth Service'', isHealthy = False \<rparr>,
      \<lparr> name = ''Database'', isHealthy = False \<rparr>]"
  "opt_get snapshot_db_down ''load-balancer'' = JObj [(''success_rate'', JNum 99)]"
  "truthy snapshot_db_down"
  "collectServiceStates snapshot_db_down serviceDisplayNames =
     [\<lparr> name = ''Auth Service'', isHealthy = True \<rparr>,
      \<lparr> name = ''Database'', isHealthy = False \<rparr>]"
  by (simp_all add: snapshot_two_down_def snapshot_db_down_def serviceDisplayNames_def)

lemma two_down_checkAlerts:
  assumes "serverList s \<noteq> None" "alerts s = Some []" "0 < maxAlerts cfg"
  shows "alerts (snd (checkAlerts cfg e snapshot_two_down s)) =
       Some [\<lparr> className = ''alert-box alert-error'',
               textContent = ''ERROR: Auth Service, Database service(s) are down.'' \<rparr>]"
    "serverList (snd (checkAlerts cfg e snapshot_two_down s)) \<noteq> None"
  using assms
  by (simp_all add: checkAlerts_def two_down_lb updateServerList_eq and_then_def
       js_lt_def js_gt_def addAlert_def new_alert_def alert_textContent_def plain_def
       plain_char_def Let_def)

lemma db_down_checkAlerts:
  assumes "serverList s \<noteq> None"
   and "alerts s = Some [\<lparr> className = ''alert-box alert-error'',
               textContent = ''ERROR: Auth Service, Database service(s) are down.'' \<rparr>]"
  shows "alerts (snd (checkAlerts cfg e snapshot_db_down s)) = alerts s"
  using assms
  by (simp add: checkAlerts_def two_down_lb updateServerList_eq and_then_def
       js_lt_def js_gt_def addAlert_def Let_def)

text \<open>
  Claim C4 as stated fails. After a poll in which Auth Service and Database are down, a
  poll in which only Database is down computes a message that is not in the list, and it
  is skipped, because the text of the listed alert contains it.
\<close>

theorem distinct_alert_skipped:
  "alerts (snd (checkAlerts config env0 snapshot_two_down initialized))
     = Some [\<lparr> className = ''alert-box alert-error'',
               textContent = ''ERROR: Auth Service, Database service(s) are down.'' \<rparr>]
   \<and> alerts (snd (checkAlerts config env0 snapshot_db_down
                (snd (checkAlerts config env0 snapshot_two_down initialized))))
     = Some [\<lparr> className = ''alert-box alert-error'',
               textContent = ''ERROR: Auth Service, Database service(s) are down.'' \<rparr>]
   \<and> addAlert config env0 Error ''Database service(s) are down.''
        (initialized\<lparr> alerts := Some [\<lparr> className = ''alert-box alert-error'',
               textContent = ''ERROR: Auth Service, Database service(s) are down.'' \<rparr>] \<rparr>)
     = initialized\<lparr> alerts := Some [\<lparr> className = ''alert-box alert-error'',
               textContent = ''ERROR: Auth Service, Database service(s) are down.'' \<rparr>] \<rparr>
   \<and> ''Auth Service, Database service(s) are down.'' \<noteq> ''Database service(s) are down.''"
proof -
  have i: "serverList initialized \<noteq> None" "alerts initialized = Some []" "0 < maxAlerts config"
    by (simp_all add: initialized_def config_def)
  note a = two_down_checkAlerts[OF i, of env0]
  have b: "alerts (snd (checkAlerts config env0 snapshot_db_down
                (snd (checkAlerts config env0 snapshot_two_down initialized))))
     = Some [\<lparr> className = ''alert-box alert-error'',
               textContent = ''ERROR: Auth Service, Database service(s) are down.'' \<rparr>]"
    using db_down_checkAlerts[OF a(2) a(1), of config env0] a(1) by simp
  have c: "addAlert config env0 Error ''Database service(s) are down.''
        (initialized\<lparr> alerts := Some [\<lparr> className = ''alert-box alert-error'',
               textContent = ''ERROR: Auth Service, Database service(s) are down.'' \<rparr>] \<rparr>)
     = initialized\<lparr> alerts := Some [\<lparr> className = ''alert-box alert-error'',
               textContent = ''ERROR: Auth Service, Database service(s) are down.'' \<rparr>] \<rparr>"
    by (simp add: addAlert_def)
  show ?thesis using a(1) b c by simp
qed

subsection \<open>Alerts for services that are down\<close>

lemma addAlert_some:
  assumes "alerts s = Some children"
  shows "\<exists>q. alerts (addAlert cfg e ty m s) = Some q"
  using assms by (simp add: addAlert_def Let_def)

lemma addAlert_contains:
  assumes "alerts s = Some children" and "0 < maxAlerts cfg" and "plain m"
  shows "\<exists>q. alerts (addAlert cfg e ty m s) = Some q
            \<and> list_ex (\<lambda>c. str_includes (textContent c) m) q"
proof (cases "list_ex (\<lambda>child. str_includes (textContent child) m) children")
  case True
  then show ?thesis using assms(1) by (simp add: addAlert_skip)
next
  case False
  show ?thesis
    using addAlert_insert[OF assms(1) False, of cfg e ty]
    by (simp only: trimmed_head[OF assms(2)]) (simp add: new_alert_includes[OF assms(3)])
qed

lemma addAlert_alerts_cong:
  assumes "alerts s1 = alerts s2"
  shows "alerts (addAlert cfg e ty m s1) = alerts (addAlert cfg e ty m s2)"
  using assms by (simp add: addAlert_def Let_def split: option.splits)

lemma after_warnings_some:
  assumes "alerts s = Some children"
  shows "\<exists>q. alerts (after_warnings cfg e lbData s) = Some q"
proof -
  have 1: "\<exists>q. alerts (case v of JNum r \<Rightarrow> if c r then addAlert cfg e ty (m r) s0 else s0
                         | _ \<Rightarrow> s0) = Some q"
    if "\<exists>q. alerts s0 = Some q" for v c ty s0 and m :: "rat \<Rightarrow> string"
    using that addAlert_some by (cases v) auto
  show ?thesis
    unfolding after_warnings_def Let_def
    by (rule 1, rule 1) (use assms in blast)
qed

lemma after_warnings_alerts_cong:
  assumes "alerts s1 = alerts s2"
  shows "alerts (after_warnings cfg e lbData s1) = alerts (after_warnings cfg e lbData s2)"
proof -
  have 1: "alerts (case v of JNum r \<Rightarrow> if c r then addAlert cfg e ty (m r) t1 else t1 | _ \<Rightarrow> t1)
         = alerts (case v of JNum r \<Rightarrow> if c r then addAlert cfg e ty (m r) t2 else t2 | _ \<Rightarrow> t2)"
    if "alerts t1 = alerts t2" for v c ty t1 t2 and m :: "rat \<Rightarrow> string"
    by (cases v) (simp_all add: addAlert_alerts_cong[OF that] that)
  show ?thesis
    unfolding after_warnings_def Let_def
    by (rule 1, rule 1) (rule assms)
qed

lemma after_warnings_silent:
  assumes "js_lt e (get lbData ''success_rate'') 95 = Inr False"
    and "js_gt e (get lbData ''avg_response_time_ms'') 500 = Inr False"
  shows "after_warnings cfg e lbData s = s"
proof -
  have 1: "(case v of JNum r \<Rightarrow> if r < 95 then X r else t | _ \<Rightarrow> t) = t"
    if "js_lt e v 95 = Inr False" for v t and X :: "rat \<Rightarrow> sys"
    using that by (cases v) (simp_all add: js_lt_def)
  have 2: "(case v of JNum r \<Rightarrow> if r > 500 then X r else t | _ \<Rightarrow> t) = t"
    if "js_gt e v 500 = Inr False" for v t and X :: "rat \<Rightarrow> sys"
    using that by (cases v) (simp_all add: js_gt_def)
  show ?thesis
    unfolding after_warnings_def Let_def
    by (simp only: 1[OF assms(1)] 2[OF assms(2)])
qed

text \<open>The names on the server list, and so the message of the third rule, have no markup.\<close>

lemma plain_names:
  assumes "\<forall>kd \<in> set kvs. plain (snd kd)"
  shows "\<forall>sv \<in> set (collectServiceStates stats kvs). plain (name sv)"
  using assms by (induction stats kvs rule: collectServiceStates.induct) (auto simp: Let_def)

lemma plain_join:
  assumes "\<forall>x \<in> set xs. plain x" and "plain sep"
  shows "plain (join sep xs)"
  using assms by (induction sep xs rule: join.induct) (simp_all add: plain_append plain_def)

lemma plain_down_message:
  "plain (down_message (fst (updateServerList stats b s)))"
proof -
  have d: "\<forall>kd \<in> set serviceDisplayNames. plain (snd kd)"
    by (simp add: serviceDisplayNames_def plain_def plain_char_def)
  have lb: "plain ''Load Balancer''" "plain '', ''" "plain '' service(s) are down.''"
    by (simp_all add: plain_def plain_char_def)
  have "\<forall>sv \<in> set (fst (updateServerList stats b s)). plain (name sv)"
    using plain_names[OF d, of stats] lb(1)
    by (auto simp: updateServerList_def Let_def split: option.splits)
  then have "\<forall>x \<in> set (map name (filter (\<lambda>sv. \<not> isHealthy sv) (fst (updateServerList stats b s)))).
               plain x"
    by auto
  then show ?thesis
    unfolding down_message_def by (simp only: plain_append plain_join[OF _ lb(2)] lb(3) simp_thms)
qed

lemma down_truthy:
  assumes "filter (\<lambda>sv. \<not> isHealthy sv) (fst (updateServerList stats True s)) \<noteq> []"
  shows "truthy stats"
  using assms by (auto simp: updateServerList_def Let_def split: option.splits if_splits)

text \<open>
  The whole reaction to a snapshot whose formatted fields are numbers or absent leaves
  the alerts that \<open>checkAlerts\<close>, called alone on the state before, leaves.
\<close>

lemma settle_alerts:
  fixes stats :: jsval
  assumes present: "serverList s \<noteq> None" and tr: "truthy stats" and num: "numeric_fields stats"
  shows "alerts (snd (fetchAllStats_settle cfg e (Decoded stats) s))
         = alerts (snd (checkAlerts cfg e stats s))"
proof -
  let ?lb = "opt_get stats ''load-balancer''"
  let ?s1 = "chartModule_update cfg e stats s"
  let ?s2 = "snd (statusModule_update e stats True ?s1)"
  have p1: "serverList ?s1 \<noteq> None" using present by (simp add: chartModule_update_frame)
  have p2: "serverList ?s2 \<noteq> None"
    using update_typed(6)[OF p1 tr num, of e] by simp
  have a2: "alerts ?s2 = alerts s"
    by (simp add: update_alerts chartModule_update_frame)
  have L: "fst (updateServerList stats True ?s2) = fst (updateServerList stats True s)"
    by (simp add: updateServerList_fst[OF p2] updateServerList_fst[OF present])
  have set: "fetchAllStats_settle cfg e (Decoded stats) s
             = (None, snd (checkAlerts cfg e stats ?s2))"
    by (rule settle_typed[OF present tr num])
  have c: "alerts (addAlert cfg e ty m (t\<lparr> serverList := x \<rparr>))
           = alerts (addAlert cfg e ty m t)" for ty m t x
    by (rule addAlert_alerts_cong) simp
  show ?thesis
  proof (cases "truthy ?lb")
    case False
    then show ?thesis by (simp add: set checkAlerts_no_lb a2)
  next
    case True
    have w: "alerts (after_warnings cfg e ?lb ?s2) = alerts (after_warnings cfg e ?lb s)"
      by (rule after_warnings_alerts_cong[OF a2])
    have 1: "alerts (snd (checkAlerts cfg e stats t)) =
       (if filter (\<lambda>sv. \<not> isHealthy sv) (fst (updateServerList stats True s)) \<noteq> []
        then alerts (addAlert cfg e Error (down_message (fst (updateServerList stats True s)))
                      (after_warnings cfg e ?lb t))
        else alerts (after_warnings cfg e ?lb t))"
      if "serverList t \<noteq> None"
        and "fst (updateServerList stats True t) = fst (updateServerList stats True s)" for t
      by (subst checkAlerts_typed[OF that(1) tr num True]) (simp add: that(2) c)
    show ?thesis
      by (simp only: set snd_conv 1[OF p2 L] 1[OF present refl] w
          addAlert_alerts_cong[OF w])
  qed
qed


text \<open>
  Claim C8, as amended. On a page with the server list and the alert list, for a snapshot
  in which one or more listed services are not healthy, the message
  \<open>down_message serviceStates\<close> is the display names of the unhealthy services joined by
  a comma and a space, followed by \<open>service(s) are down.\<close>, and has no markup.

  \<^item> \<open>checkAlerts\<close> called alone: if the snapshot has no truthy \<open>load-balancer\<close> entry, it
    returns at once and raises nothing. If it has one, and neither of the first two
    rules throws (the value each rule formats is a number, or the rule does not fire),
    it returns normally and submits an error alert with that message: afterwards the
    text of some alert in the list contains the message, and when the first two rules
    are silent and no listed text contained the message before, the new error alert
    \<open>ERROR: message\<close> is at the head of the list.
  \<^item> The whole reaction to the decoded snapshot (chart, status display, then
    \<open>checkAlerts\<close>), when each of the six fields the status display formats is a number
    or absent: no subscriber throws, so \<open>checkAlerts\<close> runs, and the alert list
    afterwards is the one \<open>checkAlerts\<close> alone leaves; with a truthy \<open>load-balancer\<close>
    entry the same two facts hold of it, and without one it is unchanged.
\<close>

theorem checkAlerts_down_services:
  fixes stats :: jsval and s :: sys and e :: env and cfg :: config_t
  defines "lbData \<equiv> opt_get stats ''load-balancer''"
    and "serviceStates \<equiv> fst (updateServerList stats True s)"
    and "res \<equiv> fetchAllStats_settle cfg e (Decoded stats) s"
  assumes present: "serverList s \<noteq> None"
    and al: "alerts s = Some children"
    and m: "0 < maxAlerts cfg"
    and down: "filter (\<lambda>sv. \<not> isHealthy sv) serviceStates \<noteq> []"
  shows "plain (down_message serviceStates)
    \<and> (\<not> truthy lbData \<longrightarrow> checkAlerts cfg e stats s = (None, s))
    \<and> (truthy lbData
        \<and> ((\<exists>r. get lbData ''success_rate'' = JNum r)
            \<or> js_lt e (get lbData ''success_rate'') 95 = Inr False)
        \<and> ((\<exists>r. get lbData ''avg_response_time_ms'' = JNum r)
            \<or> js_gt e (get lbData ''avg_response_time_ms'') 500 = Inr False)
       \<longrightarrow> fst (checkAlerts cfg e stats s) = None
         \<and> alerts (snd (checkAlerts cfg e stats s))
             = alerts (addAlert cfg e Error (down_message serviceStates)
                         (after_warnings cfg e lbData s))
         \<and> (\<exists>q. alerts (snd (checkAlerts cfg e stats s)) = Some q
                \<and> list_ex (\<lambda>c. str_includes (textContent c) (down_message serviceStates)) q)
         \<and> (js_lt e (get lbData ''success_rate'') 95 = Inr False
              \<and> js_gt e (get lbData ''avg_response_time_ms'') 500 = Inr False
              \<and> \<not> list_ex (\<lambda>c. str_includes (textContent c) (down_message serviceStates)) children
             \<longrightarrow> alerts (snd (checkAlerts cfg e stats s))
                   = Some (\<lparr> className = ''alert-box alert-error'',
                             textContent = ''ERROR: '' @ down_message serviceStates \<rparr>
                            # (if length children \<ge> maxAlerts cfg then butlast children
                               else children))))
    \<and> (numeric_fields stats \<longrightarrow>
           fst res = None
         \<and> alerts (snd res) = alerts (snd (checkAlerts cfg e stats s))
         \<and> (\<not> truthy lbData \<longrightarrow> alerts (snd res) = Some children)
         \<and> (truthy lbData \<longrightarrow>
               (\<exists>q. alerts (snd res) = Some q
                  \<and> list_ex (\<lambda>c. str_includes (textContent c) (down_message serviceStates)) q)
             \<and> (js_lt e (get lbData ''success_rate'') 95 = Inr False
                  \<and> js_gt e (get lbData ''avg_response_time_ms'') 500 = Inr False
                  \<and> \<not> list_ex (\<lambda>c. str_includes (textContent c) (down_message serviceStates))
                        children
                 \<longrightarrow> alerts (snd res)
                       = Some (\<lparr> className = ''alert-box alert-error'',
                                 textContent = ''ERROR: '' @ down_message serviceStates \<rparr>
                                # (if length children \<ge> maxAlerts cfg then butlast children
                                   else children)))))"
proof -
  let ?w = "after_warnings cfg e lbData s"
  let ?msg = "down_message serviceStates"
  let ?new = "\<lparr> className = ''alert-box alert-error'', textContent = ''ERROR: '' @ ?msg \<rparr>"
  let ?rest = "if length children \<ge> maxAlerts cfg then butlast children else children"
  have pl: "plain ?msg" unfolding serviceStates_def by (rule plain_down_message)
  have tr: "truthy stats" using down unfolding serviceStates_def by (rule down_truthy)
  have new: "new_alert e Error ?msg = ?new"
    by (simp add: new_alert_def alert_textContent_def pl)
  have c: "alerts (addAlert cfg e ty msg (t\<lparr> serverList := x \<rparr>))
           = alerts (addAlert cfg e ty msg t)" for ty msg t x
    by (rule addAlert_alerts_cong) simp
  have nolb: "checkAlerts cfg e stats s = (None, s)" if "\<not> truthy lbData"
    using that unfolding lbData_def by (rule checkAlerts_no_lb)
  have direct: "fst (checkAlerts cfg e stats s) = None
         \<and> alerts (snd (checkAlerts cfg e stats s)) = alerts (addAlert cfg e Error ?msg ?w)"
    if lb: "truthy lbData"
      and a: "(\<exists>r. get lbData ''success_rate'' = JNum r)
            \<or> js_lt e (get lbData ''success_rate'') 95 = Inr False"
      and b: "(\<exists>r. get lbData ''avg_response_time_ms'' = JNum r)
            \<or> js_gt e (get lbData ''avg_response_time_ms'') 500 = Inr False"
  proof -
    have run: "checkAlerts cfg e stats s =
       (None, addAlert cfg e Error ?msg (?w\<lparr> serverList := Some serviceStates \<rparr>))"
      using checkAlerts_rule_C[OF present lb[unfolded lbData_def] a[unfolded lbData_def]
          b[unfolded lbData_def], of cfg] down
      unfolding lbData_def serviceStates_def by simp
    show ?thesis by (simp add: run c)
  qed
  have contains: "\<exists>q. alerts (addAlert cfg e Error ?msg ?w) = Some q
                \<and> list_ex (\<lambda>c. str_includes (textContent c) ?msg) q"
  proof -
    obtain qw where qw: "alerts ?w = Some qw" using after_warnings_some[OF al] by blast
    show ?thesis by (rule addAlert_contains[OF qw m pl])
  qed
  have head: "alerts (addAlert cfg e Error ?msg ?w) = Some (?new # ?rest)"
    if q: "js_lt e (get lbData ''success_rate'') 95 = Inr False
              \<and> js_gt e (get lbData ''avg_response_time_ms'') 500 = Inr False
              \<and> \<not> list_ex (\<lambda>c. str_includes (textContent c) ?msg) children"
  proof -
    have w: "?w = s" using q by (simp add: after_warnings_silent)
    have "addAlert cfg e Error ?msg s = s\<lparr> alerts := Some (new_alert e Error ?msg # ?rest) \<rparr>"
      using addAlert_insert[OF al, of ?msg cfg e Error] q
      by (simp only: trimmed_head[OF m]) simp
    then show ?thesis unfolding w new by simp
  qed
  have event: "fst res = None \<and> alerts (snd res) = alerts (snd (checkAlerts cfg e stats s))"
    if num: "numeric_fields stats"
    unfolding res_def
    by (simp add: settle_typed[OF present tr num] settle_alerts[OF present tr num, symmetric])
  have typed: "fst (checkAlerts cfg e stats s) = None
         \<and> alerts (snd (checkAlerts cfg e stats s)) = alerts (addAlert cfg e Error ?msg ?w)"
    if num: "numeric_fields stats" and lb: "truthy lbData"
  proof -
    have g: "lbData = get stats ''load-balancer''"
      unfolding lbData_def using tr by (rule truthy_opt_get)
    have f: "get lbData k = opt_get (get stats ''load-balancer'') k" for k
      using lb truthy_opt_get[of lbData k] by (simp add: g)
    have n1: "numeric_or_absent (get lbData ''success_rate'')"
      and n2: "numeric_or_absent (get lbData ''avg_response_time_ms'')"
      using numeric_fieldsD(2,4)[OF num] by (simp_all add: f)
    show ?thesis by (rule direct[OF lb numeric_rules(1)[OF n1] numeric_rules(2)[OF n2]])
  qed
  show ?thesis
  proof (intro conjI impI)
    show "plain ?msg" by (rule pl)
  next
    assume "\<not> truthy lbData"
    then show "checkAlerts cfg e stats s = (None, s)" by (rule nolb)
  next
    assume h: "truthy lbData
        \<and> ((\<exists>r. get lbData ''success_rate'' = JNum r)
            \<or> js_lt e (get lbData ''success_rate'') 95 = Inr False)
        \<and> ((\<exists>r. get lbData ''avg_response_time_ms'' = JNum r)
            \<or> js_gt e (get lbData ''avg_response_time_ms'') 500 = Inr False)"
    then have d: "fst (checkAlerts cfg e stats s) = None
         \<and> alerts (snd (checkAlerts cfg e stats s)) = alerts (addAlert cfg e Error ?msg ?w)"
      by (intro direct) blast+
    show "fst (checkAlerts cfg e stats s) = None" using d by blast
    show "alerts (snd (checkAlerts cfg e stats s)) = alerts (addAlert cfg e Error ?msg ?w)"
      using d by blast
    show "\<exists>q. alerts (snd (checkAlerts cfg e stats s)) = Some q
                \<and> list_ex (\<lambda>c. str_includes (textContent c) ?msg) q"
      using d contains by simp
    {
      assume "js_lt e (get lbData ''success_rate'') 95 = Inr False
              \<and> js_gt e (get lbData ''avg_response_time_ms'') 500 = Inr False
              \<and> \<not> list_ex (\<lambda>c. str_includes (textContent c) ?msg) children"
      then show "alerts (snd (checkAlerts cfg e stats s)) = Some (?new # ?rest)"
        using d head by simp
    }
  next
    assume num: "numeric_fields stats"
    show "fst res = None" using event[OF num] by blast
    show "alerts (snd res) = alerts (snd (checkAlerts cfg e stats s))"
      using event[OF num] by blast
    {
      assume "\<not> truthy lbData"
      then show "alerts (snd res) = Some children" using event[OF num] nolb al by simp
    }
    {
      assume lb: "truthy lbData"
      show "\<exists>q. alerts (snd res) = Some q
                  \<and> list_ex (\<lambda>c. str_includes (textContent c) ?msg) q"
        using event[OF num] typed[OF num lb] contains by simp
      {
        assume "js_lt e (get lbData ''success_rate'') 95 = Inr False
                  \<and> js_gt e (get lbData ''avg_response_time_ms'') 500 = Inr False
                  \<and> \<not> list_ex (\<lambda>c. str_includes (textContent c) ?msg) children"
        then show "alerts (snd res) = Some (?new # ?rest)"
          using event[OF num] typed[OF num lb] head by simp
      }
    }
  qed
qed

lemma two_down_facts:
  "serverList initialized \<noteq> None" "alerts initialized = Some []" "0 < maxAlerts config"
  "numeric_fields snapshot_two_down"
  "truthy (opt_get snapshot_two_down ''load-balancer'')"
  "js_lt env0 (get (opt_get snapshot_two_down ''load-balancer'') ''success_rate'') 95 = Inr False"
  "js_gt env0 (get (opt_get snapshot_two_down ''load-balancer'') ''avg_response_time_ms'') 500
     = Inr False"
  "fst (updateServerList snapshot_two_down True initialized)
     = [\<lparr> name = ''Load Balancer'', isHealthy = True \<rparr>,
        \<lparr> name = ''Auth Service'', isHealthy = False \<rparr>,
        \<lparr> name = ''Database'', isHealthy = False \<rparr>]"
proof -
  show i: "serverList initialized \<noteq> None" by (simp add: initialized_def)
  show "alerts initialized = Some []" by (simp add: initialized_def)
  show "0 < maxAlerts config" by (simp add: config_def)
  show "numeric_fields snapshot_two_down"
    by (simp add: snapshot_two_down_def numeric_fields_def numeric_or_absent_def)
  show "truthy (opt_get snapshot_two_down ''load-balancer'')" by (simp add: two_down_lb)
  show "js_lt env0 (get (opt_get snapshot_two_down ''load-balancer'') ''success_rate'') 95
        = Inr False"
    by (simp add: two_down_lb js_lt_def)
  show "js_gt env0 (get (opt_get snapshot_two_down ''load-balancer'') ''avg_response_time_ms'') 500
     = Inr False"
    by (simp add: two_down_lb js_gt_def)
  show "fst (updateServerList snapshot_two_down True initialized)
     = [\<lparr> name = ''Load Balancer'', isHealthy = True \<rparr>,
        \<lparr> name = ''Auth Service'', isHealthy = False \<rparr>,
        \<lparr> name = ''Database'', isHealthy = False \<rparr>]"
    by (simp add: updateServerList_fst[OF i] two_down_lb)
qed

theorem checkAlerts_down_services_witness:
  "serverList initialized \<noteq> None \<and> alerts initialized = Some [] \<and> 0 < maxAlerts config
   \<and> numeric_fields snapshot_two_down
   \<and> fst (fetchAllStats_settle config env0 (Decoded snapshot_two_down) initialized) = None
   \<and> alerts (snd (fetchAllStats_settle config env0 (Decoded snapshot_two_down) initialized))
     = Some [\<lparr> className = ''alert-box alert-error'',
               textContent = ''ERROR: Auth Service, Database service(s) are down.'' \<rparr>]"
proof -
  let ?lb = "opt_get snapshot_two_down ''load-balancer''"
  let ?L = "fst (updateServerList snapshot_two_down True initialized)"
  note f = two_down_facts
  have D: "filter (\<lambda>sv. \<not> isHealthy sv) ?L \<noteq> []" by (simp add: f(8))
  have Q: "js_lt env0 (get ?lb ''success_rate'') 95 = Inr False
              \<and> js_gt env0 (get ?lb ''avg_response_time_ms'') 500 = Inr False
              \<and> \<not> list_ex (\<lambda>c. str_includes (textContent c) (down_message ?L)) []"
    using f(6,7) by simp
  note t = checkAlerts_down_services[where s = initialized and stats = snapshot_two_down
        and cfg = config and e = env0 and children = "[]", OF f(1) f(2) f(3) D]
  from t f(4) have
    "fst (fetchAllStats_settle config env0 (Decoded snapshot_two_down) initialized) = None"
    by blast
  moreover from t f(4) f(5) Q have
    "alerts (snd (fetchAllStats_settle config env0 (Decoded snapshot_two_down) initialized))
          = Some (\<lparr> className = ''alert-box alert-error'',
                     textContent = ''ERROR: '' @ down_message ?L \<rparr>
                   # (if length ([] :: alert_li list) \<ge> maxAlerts config
                      then butlast [] else []))"
    by blast
  ultimately show ?thesis using f(1,2,3,4)
    by (simp add: f(8) down_message_def)
qed

lemma no_lb_facts:
  "opt_get snapshot_no_lb ''load-balancer'' = JUndefined"
  "truthy snapshot_no_lb"
  "numeric_fields snapshot_no_lb"
  "collectServiceStates snapshot_no_lb serviceDisplayNames =
     [\<lparr> name = ''Auth Service'', isHealthy = False \<rparr>]"
  by (simp_all add: snapshot_no_lb_def serviceDisplayNames_def numeric_fields_def
      numeric_or_absent_def)

text \<open>
  Claim C8 as stated fails. In a snapshot without a \<open>load-balancer\<close> entry whose
  \<open>auth\<close> service is down, Auth Service is listed as not healthy and the status is
  \<open>DEGRADED\<close>, but no alert is raised.
\<close>

theorem no_load_balancer_no_alert:
  "filter (\<lambda>sv. \<not> isHealthy sv) (fst (updateServerList snapshot_no_lb True initialized))
     = [\<lparr> name = ''Auth Service'', isHealthy = False \<rparr>]
   \<and> alerts (snd (checkAlerts config env0 snapshot_no_lb initialized)) = Some []
   \<and> fst (fetchAllStats_settle config env0 (Decoded snapshot_no_lb) initialized) = None
   \<and> overallStatus (snd (fetchAllStats_settle config env0 (Decoded snapshot_no_lb) initialized))
       = ''DEGRADED''
   \<and> alerts (snd (fetchAllStats_settle config env0 (Decoded snapshot_no_lb) initialized))
       = Some []"
proof -
  have i: "serverList initialized \<noteq> None" "alerts initialized = Some []"
    by (simp_all add: initialized_def)
  let ?s1 = "chartModule_update config env0 snapshot_no_lb initialized"
  let ?s2 = "snd (statusModule_update env0 snapshot_no_lb True ?s1)"
  have p1: "serverList ?s1 \<noteq> None"
    using i by (simp add: chartModule_update_frame)
  have c: "checkAlerts config env0 snapshot_no_lb s = (None, s)" for s
    by (rule checkAlerts_no_lb) (simp add: no_lb_facts)
  have set: "fetchAllStats_settle config env0 (Decoded snapshot_no_lb) initialized = (None, ?s2)"
    by (simp add: settle_typed[OF i(1) no_lb_facts(2,3)] c)
  have st: "overallStatus ?s2 = ''DEGRADED''"
    by (simp add: update_typed(2)[OF p1 no_lb_facts(2,3)] updateServerList_fst[OF p1]
        no_lb_facts)
  have a2: "alerts ?s2 = Some []"
    using i(2) by (simp add: update_alerts chartModule_update_frame)
  show ?thesis
    using st a2 i(2) by (simp add: set c updateServerList_fst[OF i(1)] no_lb_facts)
qed

end
